theory Spec2Isabelle
  imports Main
begin

section \<open>JavaScript values\<close>

text \<open>
  Both handlers work on the result of \<^verbatim>\<open>JSON.parse\<close>. A parsed message is a JSON value;
  reading a property that is not there gives \<^verbatim>\<open>undefined\<close>, so the value type has it as
  well. The handlers never compute with a number: they test it for truthiness, compare it
  with string literals and coerce it to a string. So a number is kept as the text that
  \<^verbatim>\<open>String\<close> gives for it, which determines the number (but for the sign of zero, which
  nothing here can tell). A string is the list of its bytes in UTF-8: every operation below
  treats a character outside ASCII like any other character outside the base64 alphabet. An
  object is the list of its entries; a lookup takes the entry of a key.
\<close>

datatype js =
    JUndefined
  | JNull
  | JBool bool
  | JNum string
  | JStr string
  | JArr "js list"
  | JObj "(string \<times> js) list"

text \<open>Truthiness, as \<^verbatim>\<open>!v\<close> and \<^verbatim>\<open>if (v)\<close> read a value.\<close>

fun truthy :: "js \<Rightarrow> bool" where
  "truthy JUndefined = False"
| "truthy JNull = False"
| "truthy (JBool b) = b"
| "truthy (JNum n) = (n \<noteq> ''0'')"
| "truthy (JStr s) = (s \<noteq> [])"
| "truthy (JArr xs) = True"
| "truthy (JObj kvs) = True"

text \<open>
  \<^verbatim>\<open>v.k\<close> for the property names the handlers read (none of them is a property of a
  string, number, boolean or array). On \<^verbatim>\<open>null\<close> and \<^verbatim>\<open>undefined\<close> the access throws a
  TypeError; \<open>nullish\<close> is the test for that, written out at every access the source does
  not guard.
\<close>

fun prop_of :: "js \<Rightarrow> string \<Rightarrow> js" where
  "prop_of (JObj kvs) k = (case map_of kvs k of None \<Rightarrow> JUndefined | Some v \<Rightarrow> v)"
| "prop_of v k = JUndefined"

fun nullish :: "js \<Rightarrow> bool" where
  "nullish JUndefined = True"
| "nullish JNull = True"
| "nullish v = False"

text \<open>\<^verbatim>\<open>typeof v === 'object'\<close>: true of objects, arrays and \<^verbatim>\<open>null\<close>.\<close>

fun typeof_object :: "js \<Rightarrow> bool" where
  "typeof_object JNull = True"
| "typeof_object (JArr xs) = True"
| "typeof_object (JObj kvs) = True"
| "typeof_object v = False"

section \<open>String coercion and the base64 character class\<close>

text \<open>
  \<^verbatim>\<open>RegExp.prototype.test\<close> coerces its argument with \<^verbatim>\<open>String(v)\<close>: a string is itself, a
  number is its text, an array is its elements joined by commas (\<^verbatim>\<open>null\<close> and \<^verbatim>\<open>undefined\<close>
  elements as the empty string), every plain object is \<^verbatim>\<open>[object Object]\<close>.
\<close>

fun join :: "string list \<Rightarrow> string" where
  "join [] = []"
| "join [x] = x"
| "join (x # y # ys) = x @ '','' @ join (y # ys)"

fun js_String :: "js \<Rightarrow> string" where
  "js_String JUndefined = ''undefined''"
| "js_String JNull = ''null''"
| "js_String (JBool b) = (if b then ''true'' else ''false'')"
| "js_String (JNum n) = n"
| "js_String (JStr s) = s"
| "js_String (JArr xs) = join (map (\<lambda>x. if nullish x then [] else js_String x) xs)"
| "js_String (JObj kvs) = ''[object Object]''"

text \<open>The class of \<^verbatim>\<open>/^[A-Za-z0-9+/=]+$/\<close> and the test itself: one character or more, all of the class.\<close>

definition base64_class :: "char \<Rightarrow> bool" where
  "base64_class c =
     (let n = (of_char c :: nat) in
        (65 \<le> n \<and> n \<le> 90) \<or> (97 \<le> n \<and> n \<le> 122) \<or> (48 \<le> n \<and> n \<le> 57) \<or>
        c = CHR ''+'' \<or> c = CHR ''/'' \<or> c = CHR ''='')"

definition isBase64 :: "js \<Rightarrow> bool" where
  "isBase64 v = (js_String v \<noteq> [] \<and> list_all base64_class (js_String v))"

section \<open>The base64 round trip of a buffer\<close>

text \<open>
  \<^verbatim>\<open>Buffer.from(s, "base64").toString("base64")\<close> belongs to the Node runtime, not to the
  repository. Its decoder is lenient: it reads the characters of the standard and of the
  URL-safe alphabet, skips every other character, and stops at the first \<^verbatim>\<open>=\<close>; two and three
  characters left over give one and two bytes, one character left over gives none. Its
  encoder writes the standard alphabet with padding. Bytes are numbers below 256.
\<close>

definition unbase64 :: "char \<Rightarrow> nat option" where
  "unbase64 c =
     (let n = (of_char c :: nat) in
        if 65 \<le> n \<and> n \<le> 90 then Some (n - 65)
        else if 97 \<le> n \<and> n \<le> 122 then Some (n - 71)
        else if 48 \<le> n \<and> n \<le> 57 then Some (n + 4)
        else if c = CHR ''+'' \<or> c = CHR ''-'' then Some 62
        else if c = CHR ''/'' \<or> c = CHR ''_'' then Some 63
        else None)"

fun sextets :: "string \<Rightarrow> nat list" where
  "sextets [] = []"
| "sextets (c # cs) =
     (if c = CHR ''='' then []
      else case unbase64 c of None \<Rightarrow> sextets cs | Some v \<Rightarrow> v # sextets cs)"

fun decode_groups :: "nat list \<Rightarrow> nat list" where
  "decode_groups (a # b # c # d # r) =
     [a * 4 + b div 16, (b mod 16) * 16 + c div 4, (c mod 4) * 64 + d] @ decode_groups r"
| "decode_groups [a, b, c] = [a * 4 + b div 16, (b mod 16) * 16 + c div 4]"
| "decode_groups [a, b] = [a * 4 + b div 16]"
| "decode_groups r = []"

definition base64_decode :: "string \<Rightarrow> nat list" where
  "base64_decode s = decode_groups (sextets s)"

definition base64_char :: "nat \<Rightarrow> char" where
  "base64_char v =
     (if v < 26 then char_of (65 + v)
      else if v < 52 then char_of (71 + v)
      else if v < 62 then char_of (v - 4)
      else if v = 62 then CHR ''+''
      else CHR ''/'')"

fun base64_encode :: "nat list \<Rightarrow> string" where
  "base64_encode (x # y # z # r) =
     [base64_char (x div 4), base64_char ((x mod 4) * 16 + y div 16),
      base64_char ((y mod 16) * 4 + z div 64), base64_char (z mod 64)] @ base64_encode r"
| "base64_encode [x, y] =
     [base64_char (x div 4), base64_char ((x mod 4) * 16 + y div 16),
      base64_char ((y mod 16) * 4), CHR ''='']"
| "base64_encode [x] = [base64_char (x div 4), base64_char ((x mod 4) * 16), CHR ''='', CHR ''='']"
| "base64_encode [] = []"

text \<open>
  The round trip of a payload. A string is decoded and encoded again. A number and a boolean
  make \<^verbatim>\<open>Buffer.from\<close> throw a TypeError (\<open>None\<close>), as \<^verbatim>\<open>null\<close> and \<^verbatim>\<open>undefined\<close> do. From an
  array or an object Node builds the buffer out of the elements, coercing each to a number;
  that construction is the parameter \<open>fromObject\<close> (\<open>None\<close> where it throws).
\<close>

definition bufferRoundTrip :: "(js \<Rightarrow> nat list option) \<Rightarrow> js \<Rightarrow> string option" where
  "bufferRoundTrip fromObject payload =
     (case payload of
        JStr s \<Rightarrow> Some (base64_encode (base64_decode s))
      | JArr xs \<Rightarrow> map_option base64_encode (fromObject payload)
      | JObj kvs \<Rightarrow> map_option base64_encode (fromObject payload)
      | _ \<Rightarrow> None)"

section \<open>Sockets, effects and the session\<close>

text \<open>The four values of \<^verbatim>\<open>readyState\<close> of a WebSocket.\<close>

datatype ready_state = CONNECTING | OPEN | CLOSING | CLOSED

text \<open>The connect timer of one provider socket (\<^verbatim>\<open>connectionTimeout\<close>).\<close>

datatype timer = Armed | Cleared | Fired

text \<open>
  The calls a handler issues on the two legs and on the timers, in the order it issues them.
  A frame is recorded as the value handed to \<^verbatim>\<open>JSON.stringify\<close>. Provider sockets and their
  timers are numbered in the order of their creation. What the WebSocket library does with a
  call (its own check of a close code, a send on a socket that is not open) is not part of
  the session's code and is not modelled.
\<close>

datatype action =
    TwilioSend js
  | TwilioClose int string
  | TwilioCloseNoArgs
  | ElevenLabsNew nat js
  | ElevenLabsSend nat js
  | ElevenLabsClose nat int string
  | ElevenLabsCloseNoArgs nat
  | SetTimeout nat nat
  | ClearTimeout nat

text \<open>
  The variables of one \<^verbatim>\<open>/media-stream\<close> connection that both variants of the handler share:
  \<^verbatim>\<open>streamSid\<close>, \<^verbatim>\<open>elevenLabsWs\<close> (the number of the socket it refers to, \<open>None\<close> for
  \<^verbatim>\<open>null\<close>), the ready state of \<^verbatim>\<open>connection.socket\<close> and of every provider socket created so
  far, the number of \<^verbatim>\<open>start\<close> handlers suspended at \<^verbatim>\<open>await getSignedUrl()\<close>, and the calls
  issued so far.
\<close>

record relay =
  streamSid :: js
  elevenLabsWs :: "nat option"
  twilio :: ready_state
  providers :: "ready_state list"
  pending :: nat
  calls :: "action list"

text \<open>The variant in \<^verbatim>\<open>src/inbound-calls.js\<close> adds the flag \<^verbatim>\<open>isClosing\<close> and the timers.\<close>

record session = relay +
  isClosing :: bool
  timers :: "timer list"

definition initial :: session where
  "initial = \<lparr>streamSid = JNull, elevenLabsWs = None, twilio = OPEN, providers = [],
     pending = 0, calls = [], isClosing = False, timers = []\<rparr>"

text \<open>\<^verbatim>\<open>elevenLabsWs && elevenLabsWs.readyState === WebSocket.OPEN\<close>\<close>

definition elevenLabsOpen :: "'a relay_scheme \<Rightarrow> bool" where
  "elevenLabsOpen s =
     (case elevenLabsWs s of
        None \<Rightarrow> False
      | Some i \<Rightarrow> i < length (providers s) \<and> providers s ! i = OPEN)"

subsection \<open>The shutdown coordinator\<close>

text \<open>
  \<^verbatim>\<open>closeWithCode\<close> (inbound-calls.js, lines 59 to 74). A socket on which \<^verbatim>\<open>close\<close> is called
  while it is open is \<open>CLOSING\<close> from then on.
\<close>

definition closeElevenLabs :: "session \<Rightarrow> session" where
  "closeElevenLabs s =
     (case elevenLabsWs s of
        None \<Rightarrow> s
      | Some i \<Rightarrow>
          if elevenLabsOpen s
          then s\<lparr>providers := (providers s)[i := CLOSING],
                 calls := calls s @ [ElevenLabsClose i 1000 ''Closing normally'']\<rparr>
          else s)"

definition closeTwilio :: "int \<Rightarrow> string \<Rightarrow> session \<Rightarrow> session" where
  "closeTwilio code reason s =
     (if twilio s = OPEN
      then s\<lparr>twilio := CLOSING, calls := calls s @ [TwilioClose code reason]\<rparr>
      else s)"

definition closeWithCode :: "int \<Rightarrow> string \<Rightarrow> session \<Rightarrow> session" where
  "closeWithCode code reason s =
     (if \<not> isClosing s
      then closeTwilio code reason (closeElevenLabs (s\<lparr>isClosing := True\<rparr>))
      else s)"

section \<open>Provider messages\<close>

text \<open>\<^verbatim>\<open>a?.k\<close>\<close>

definition opt_chain :: "js \<Rightarrow> string \<Rightarrow> js" where
  "opt_chain a k = (if nullish a then JUndefined else prop_of a k)"

definition mediaFrame :: "js \<Rightarrow> js \<Rightarrow> js" where
  "mediaFrame sid payload =
     JObj [(''event'', JStr ''media''), (''streamSid'', sid), (''media'', JObj [(''payload'', payload)])]"

definition clearFrame :: "js \<Rightarrow> js" where
  "clearFrame sid = JObj [(''event'', JStr ''clear''), (''streamSid'', sid)]"

definition pongFrame :: "js \<Rightarrow> js" where
  "pongFrame event_id = JObj [(''type'', JStr ''pong''), (''event_id'', event_id)]"

text \<open>
  \<^verbatim>\<open>handleElevenLabsMessage\<close> of \<^verbatim>\<open>src/inbound-calls.js\<close> (lines 186 to 240). It reads the
  variables \<^verbatim>\<open>streamSid\<close> and \<^verbatim>\<open>elevenLabsWs\<close> and changes none; its result is the list of
  the calls it issues. The \<^verbatim>\<open>switch\<close> compares \<^verbatim>\<open>message.type\<close> with \<^verbatim>\<open>===\<close>. With
  \<^verbatim>\<open>elevenLabsWs\<close> being \<^verbatim>\<open>null\<close> the pong throws before anything is sent.
\<close>

definition handleElevenLabsMessage :: "js \<Rightarrow> nat option \<Rightarrow> js \<Rightarrow> action list" where
  "handleElevenLabsMessage sid ws message =
     (if \<not> truthy message then []
      else if \<not> typeof_object message then []
      else if prop_of message ''type'' = JStr ''conversation_initiation_metadata'' then []
      else if prop_of message ''type'' = JStr ''audio'' then
        (if truthy (opt_chain (prop_of message ''audio_event'') ''audio_base_64'') then
           (if \<not> truthy sid then []
            else if \<not> isBase64 (prop_of (prop_of message ''audio_event'') ''audio_base_64'') then []
            else [TwilioSend (mediaFrame sid (prop_of (prop_of message ''audio_event'') ''audio_base_64''))])
         else [])
      else if prop_of message ''type'' = JStr ''interruption'' then [TwilioSend (clearFrame sid)]
      else if prop_of message ''type'' = JStr ''ping'' then
        (if truthy (opt_chain (prop_of message ''ping_event'') ''event_id'') then
           (case ws of
              None \<Rightarrow> []
            | Some i \<Rightarrow> [ElevenLabsSend i (pongFrame (prop_of (prop_of message ''ping_event'') ''event_id''))])
         else [])
      else [])"

text \<open>\<^verbatim>\<open>handleElevenLabsMessage\<close> of the second file, \<^verbatim>\<open>src/unnamed/part_000\<close> (lines 139 to 193).\<close>

definition handleElevenLabsMessage_lenient :: "js \<Rightarrow> nat option \<Rightarrow> js \<Rightarrow> action list" where
  "handleElevenLabsMessage_lenient sid ws message =
     (if \<not> truthy message then []
      else if \<not> typeof_object message then []
      else if prop_of message ''type'' = JStr ''conversation_initiation_metadata'' then []
      else if prop_of message ''type'' = JStr ''audio'' then
        (if truthy (opt_chain (prop_of message ''audio_event'') ''audio_base_64'') then
           (if \<not> truthy sid then []
            else if \<not> isBase64 (prop_of (prop_of message ''audio_event'') ''audio_base_64'') then []
            else [TwilioSend (mediaFrame sid (prop_of (prop_of message ''audio_event'') ''audio_base_64''))])
         else [])
      else if prop_of message ''type'' = JStr ''interruption'' then [TwilioSend (clearFrame sid)]
      else if prop_of message ''type'' = JStr ''ping'' then
        (if truthy (opt_chain (prop_of message ''ping_event'') ''event_id'') then
           (case ws of
              None \<Rightarrow> []
            | Some i \<Rightarrow> [ElevenLabsSend i (pongFrame (prop_of (prop_of message ''ping_event'') ''event_id''))])
         else [])
      else [])"

section \<open>The signed URL\<close>

text \<open>
  What \<^verbatim>\<open>fetch\<close> gives \<^verbatim>\<open>getSignedUrl\<close> (lines 13 to 35): it rejects, or it resolves to a
  response with \<^verbatim>\<open>ok\<close>, \<^verbatim>\<open>statusText\<close> and the result of \<^verbatim>\<open>response.json()\<close> (\<open>None\<close> where
  that rejects). \<^verbatim>\<open>getSignedUrl\<close> rethrows every error and returns \<^verbatim>\<open>data.signed_url\<close> otherwise.
\<close>

record response =
  ok :: bool
  statusText :: string
  json :: "js option"

datatype fetch_result = FetchRejects | FetchResolves response

datatype error = FetchFailed | NotOk string | BodyNotJson | TypeError

definition getSignedUrl :: "fetch_result \<Rightarrow> error + js" where
  "getSignedUrl r =
     (case r of
        FetchRejects \<Rightarrow> Inl FetchFailed
      | FetchResolves resp \<Rightarrow>
          if \<not> ok resp then Inl (NotOk (''Failed to get signed URL: '' @ statusText resp))
          else (case json resp of
                  None \<Rightarrow> Inl BodyNotJson
                | Some data \<Rightarrow> if nullish data then Inl TypeError else Inr (prop_of data ''signed_url'')))"

section \<open>The session of \<^verbatim>\<open>src/inbound-calls.js\<close>\<close>

text \<open>
  The events of one connection. A message carries the result of \<^verbatim>\<open>JSON.parse\<close> (\<open>None\<close>: it
  throws). \<open>SignedUrlSettled r accepted\<close> resumes one \<^verbatim>\<open>start\<close> handler suspended at
  \<^verbatim>\<open>await getSignedUrl()\<close>; \<open>accepted\<close> says whether \<^verbatim>\<open>new WebSocket(signedUrl)\<close> returns
  rather than throws, which the WebSocket library decides. The events of a provider socket
  carry its number. \<open>TwilioState\<close> and \<open>ElevenLabsState\<close> are the changes of a ready state
  that the library makes on its own, with no handler of the session running (a closing
  handshake begun by the peer, say).
\<close>

datatype event =
    TwilioMessage "js option"
  | TwilioClosed int string
  | TwilioError
  | SignedUrlSettled fetch_result bool
  | ElevenLabsOpened nat
  | ElevenLabsMessage nat "js option"
  | ElevenLabsError nat
  | ElevenLabsClosed nat int string
  | TimeoutExpired nat
  | TwilioState ready_state
  | ElevenLabsState nat ready_state

text \<open>
  The \<^verbatim>\<open>media\<close> case (lines 151 to 170). A round trip that throws is caught and logged, and
  nothing is sent.
\<close>

definition audioMessage :: "string \<Rightarrow> js" where
  "audioMessage chunk = JObj [(''user_audio_chunk'', JStr chunk)]"

definition media :: "(js \<Rightarrow> nat list option) \<Rightarrow> js \<Rightarrow> session \<Rightarrow> session" where
  "media fromObject data s =
     (if \<not> elevenLabsOpen s then s
      else if \<not> truthy (prop_of data ''media'') then s
      else if \<not> truthy (prop_of (prop_of data ''media'') ''payload'') then s
      else (case (elevenLabsWs s, bufferRoundTrip fromObject (prop_of (prop_of data ''media'') ''payload'')) of
              (Some i, Some chunk) \<Rightarrow>
                s\<lparr>calls := calls s @ [ElevenLabsSend i (audioMessage chunk)]\<rparr>
            | _ \<Rightarrow> s))"

text \<open>
  The \<^verbatim>\<open>start\<close> case up to its \<^verbatim>\<open>await\<close> (lines 89 to 100), and the rest of it (lines 100 to
  149), which runs when the fetch has settled: by then other handlers may have run.
\<close>

definition start :: "js \<Rightarrow> session \<Rightarrow> session" where
  "start data s =
     (if \<not> truthy (prop_of data ''start'') then closeWithCode 1003 ''Missing streamSid'' s
      else if \<not> truthy (prop_of (prop_of data ''start'') ''streamSid'')
        then closeWithCode 1003 ''Missing streamSid'' s
      else s\<lparr>streamSid := prop_of (prop_of data ''start'') ''streamSid'', pending := Suc (pending s)\<rparr>)"

definition connectElevenLabs :: "js \<Rightarrow> session \<Rightarrow> session" where
  "connectElevenLabs signedUrl s =
     s\<lparr>elevenLabsWs := Some (length (providers s)),
       providers := providers s @ [CONNECTING],
       timers := timers s @ [Armed],
       calls := calls s @ [ElevenLabsNew (length (providers s)) signedUrl,
                           SetTimeout (length (providers s)) 10000]\<rparr>"

definition signedUrlSettled :: "fetch_result \<Rightarrow> bool \<Rightarrow> session \<Rightarrow> session" where
  "signedUrlSettled r accepted s =
     (if pending s = 0 then s
      else (case getSignedUrl r of
              Inl e \<Rightarrow>
                closeWithCode 1011 ''Failed to initialize ElevenLabs connection''
                  (s\<lparr>pending := pending s - 1\<rparr>)
            | Inr signedUrl \<Rightarrow>
                if accepted then connectElevenLabs signedUrl (s\<lparr>pending := pending s - 1\<rparr>)
                else closeWithCode 1011 ''Failed to initialize ElevenLabs connection''
                       (s\<lparr>pending := pending s - 1\<rparr>)))"

text \<open>The handler of the messages of Twilio (lines 77 to 183).\<close>

definition twilioMessage :: "(js \<Rightarrow> nat list option) \<Rightarrow> js option \<Rightarrow> session \<Rightarrow> session" where
  "twilioMessage fromObject parsed s =
     (case parsed of
        None \<Rightarrow> closeWithCode 1003 ''Message processing error'' s
      | Some data \<Rightarrow>
          if \<not> truthy data then closeWithCode 1003 ''Invalid message format'' s
          else if \<not> truthy (prop_of data ''event'') then closeWithCode 1003 ''Invalid message format'' s
          else if prop_of data ''event'' = JStr ''start'' then start data s
          else if prop_of data ''event'' = JStr ''media'' then media fromObject data s
          else if prop_of data ''event'' = JStr ''stop'' then closeWithCode 1000 ''Stop event received'' s
          else s)"

text \<open>
  The handlers of a provider socket (lines 113 to 143) and the timer (lines 106 to 110). The
  timer reads the variable \<^verbatim>\<open>elevenLabsWs\<close>, that is the socket created last.
\<close>

definition elevenLabsOpened :: "nat \<Rightarrow> session \<Rightarrow> session" where
  "elevenLabsOpened i s =
     s\<lparr>providers := (providers s)[i := OPEN],
       timers := (if timers s ! i = Armed then (timers s)[i := Cleared] else timers s),
       calls := calls s @ [ClearTimeout i]\<rparr>"

definition elevenLabsMessage :: "js option \<Rightarrow> session \<Rightarrow> session" where
  "elevenLabsMessage parsed s =
     (if twilio s \<noteq> OPEN then s
      else (case parsed of
              None \<Rightarrow> s
            | Some message \<Rightarrow>
                s\<lparr>calls := calls s @ handleElevenLabsMessage (streamSid s) (elevenLabsWs s) message\<rparr>))"

definition timeoutExpired :: "nat \<Rightarrow> session \<Rightarrow> session" where
  "timeoutExpired i s =
     (if \<not> elevenLabsOpen s
      then closeWithCode 1006 ''ElevenLabs connection timeout'' (s\<lparr>timers := (timers s)[i := Fired]\<rparr>)
      else s\<lparr>timers := (timers s)[i := Fired]\<rparr>)"

text \<open>
  One event. An event of a socket that was never created, the opening of a socket that is not
  connecting, the expiry of a timer that is not armed and the settling of a fetch that
  nobody awaits do not happen: the state stays as it is. A socket is \<open>OPEN\<close> when its
  \<^verbatim>\<open>open\<close> handler runs and \<open>CLOSED\<close> when its \<^verbatim>\<open>close\<close> handler runs; the reason of a close
  is taken as text. The handlers of \<^verbatim>\<open>close\<close> and \<^verbatim>\<open>error\<close> of Twilio are the lines 243 to
  252.
\<close>

definition step :: "(js \<Rightarrow> nat list option) \<Rightarrow> session \<Rightarrow> event \<Rightarrow> session" where
  "step fromObject s e =
     (case e of
        TwilioMessage parsed \<Rightarrow> twilioMessage fromObject parsed s
      | TwilioClosed code reason \<Rightarrow>
          closeWithCode (if code \<noteq> 0 then code else 1000)
            (if reason \<noteq> [] then reason else ''Connection closed'') (s\<lparr>twilio := CLOSED\<rparr>)
      | TwilioError \<Rightarrow> closeWithCode 1011 ''Twilio WebSocket error'' s
      | SignedUrlSettled r accepted \<Rightarrow> signedUrlSettled r accepted s
      | ElevenLabsOpened i \<Rightarrow>
          if i < length (providers s) \<and> providers s ! i = CONNECTING then elevenLabsOpened i s else s
      | ElevenLabsMessage i parsed \<Rightarrow>
          if i < length (providers s) then elevenLabsMessage parsed s else s
      | ElevenLabsError i \<Rightarrow>
          if i < length (providers s) then closeWithCode 1011 ''ElevenLabs WebSocket error'' s else s
      | ElevenLabsClosed i code reason \<Rightarrow>
          if i < length (providers s)
          then closeWithCode code reason (s\<lparr>providers := (providers s)[i := CLOSED]\<rparr>)
          else s
      | TimeoutExpired i \<Rightarrow>
          if i < length (timers s) \<and> timers s ! i = Armed then timeoutExpired i s else s
      | TwilioState r \<Rightarrow> s\<lparr>twilio := r\<rparr>
      | ElevenLabsState i r \<Rightarrow>
          if i < length (providers s) then s\<lparr>providers := (providers s)[i := r]\<rparr> else s)"

definition run :: "(js \<Rightarrow> nat list option) \<Rightarrow> session \<Rightarrow> event list \<Rightarrow> session" where
  "run fromObject s es = foldl (step fromObject) s es"

section \<open>The session of \<^verbatim>\<open>src/unnamed/part_000\<close>\<close>

text \<open>
  The second file has the same routes with neither \<^verbatim>\<open>closeWithCode\<close> nor a timer: its state
  is the shared part alone and its events are those of the first file but the timer's. Its
  \<^verbatim>\<open>close()\<close> calls carry no code; a socket that is connecting or open is \<open>CLOSING\<close> after one.
\<close>

definition closing :: "ready_state \<Rightarrow> ready_state" where
  "closing r = (if r = CONNECTING \<or> r = OPEN then CLOSING else r)"

definition elevenLabsClose_lenient :: "relay \<Rightarrow> relay" where
  "elevenLabsClose_lenient s =
     (case elevenLabsWs s of
        None \<Rightarrow> s
      | Some i \<Rightarrow>
          s\<lparr>providers := (providers s)[i := closing (providers s ! i)],
            calls := calls s @ [ElevenLabsCloseNoArgs i]\<rparr>)"

text \<open>
  The \<^verbatim>\<open>media\<close> case (lines 114 to 124): \<^verbatim>\<open>data.media.payload\<close> is read with no test, so a
  message without \<^verbatim>\<open>media\<close> throws a TypeError, which the handler's \<^verbatim>\<open>catch\<close> logs.
\<close>

definition media_lenient :: "(js \<Rightarrow> nat list option) \<Rightarrow> js \<Rightarrow> relay \<Rightarrow> relay" where
  "media_lenient fromObject data s =
     (if elevenLabsOpen s then
        (if nullish (prop_of data ''media'') then s
         else (case (elevenLabsWs s, bufferRoundTrip fromObject (prop_of (prop_of data ''media'') ''payload'')) of
                 (Some i, Some chunk) \<Rightarrow>
                   s\<lparr>calls := calls s @ [ElevenLabsSend i (audioMessage chunk)]\<rparr>
               | _ \<Rightarrow> s))
      else s)"

definition start_lenient :: "js \<Rightarrow> relay \<Rightarrow> relay" where
  "start_lenient data s =
     (if \<not> truthy (prop_of data ''start'') then s
      else if \<not> truthy (prop_of (prop_of data ''start'') ''streamSid'') then s
      else s\<lparr>streamSid := prop_of (prop_of data ''start'') ''streamSid'', pending := Suc (pending s)\<rparr>)"

definition twilioClose_lenient :: "relay \<Rightarrow> relay" where
  "twilioClose_lenient s =
     s\<lparr>twilio := closing (twilio s), calls := calls s @ [TwilioCloseNoArgs]\<rparr>"

definition signedUrlSettled_lenient :: "fetch_result \<Rightarrow> bool \<Rightarrow> relay \<Rightarrow> relay" where
  "signedUrlSettled_lenient r accepted s =
     (if pending s = 0 then s
      else (case getSignedUrl r of
              Inl e \<Rightarrow> twilioClose_lenient (s\<lparr>pending := pending s - 1\<rparr>)
            | Inr signedUrl \<Rightarrow>
                if accepted
                then s\<lparr>pending := pending s - 1,
                       elevenLabsWs := Some (length (providers s)),
                       providers := providers s @ [CONNECTING],
                       calls := calls s @ [ElevenLabsNew (length (providers s)) signedUrl]\<rparr>
                else twilioClose_lenient (s\<lparr>pending := pending s - 1\<rparr>)))"

definition twilioMessage_lenient :: "(js \<Rightarrow> nat list option) \<Rightarrow> js option \<Rightarrow> relay \<Rightarrow> relay" where
  "twilioMessage_lenient fromObject parsed s =
     (case parsed of
        None \<Rightarrow> s
      | Some data \<Rightarrow>
          if \<not> truthy data then s
          else if \<not> truthy (prop_of data ''event'') then s
          else if prop_of data ''event'' = JStr ''start'' then start_lenient data s
          else if prop_of data ''event'' = JStr ''media'' then media_lenient fromObject data s
          else if prop_of data ''event'' = JStr ''stop'' then elevenLabsClose_lenient s
          else s)"

definition elevenLabsMessage_lenient :: "js option \<Rightarrow> relay \<Rightarrow> relay" where
  "elevenLabsMessage_lenient parsed s =
     (case parsed of
        None \<Rightarrow> s
      | Some message \<Rightarrow>
          s\<lparr>calls := calls s @ handleElevenLabsMessage_lenient (streamSid s) (elevenLabsWs s) message\<rparr>)"

definition step_lenient :: "(js \<Rightarrow> nat list option) \<Rightarrow> relay \<Rightarrow> event \<Rightarrow> relay" where
  "step_lenient fromObject s e =
     (case e of
        TwilioMessage parsed \<Rightarrow> twilioMessage_lenient fromObject parsed s
      | TwilioClosed code reason \<Rightarrow> elevenLabsClose_lenient (s\<lparr>twilio := CLOSED\<rparr>)
      | TwilioError \<Rightarrow> elevenLabsClose_lenient s
      | SignedUrlSettled r accepted \<Rightarrow> signedUrlSettled_lenient r accepted s
      | ElevenLabsOpened i \<Rightarrow>
          if i < length (providers s) \<and> providers s ! i = CONNECTING
          then s\<lparr>providers := (providers s)[i := OPEN]\<rparr> else s
      | ElevenLabsMessage i parsed \<Rightarrow>
          if i < length (providers s) then elevenLabsMessage_lenient parsed s else s
      | ElevenLabsError i \<Rightarrow> s
      | ElevenLabsClosed i code reason \<Rightarrow>
          if i < length (providers s) then s\<lparr>providers := (providers s)[i := CLOSED]\<rparr> else s
      | TimeoutExpired i \<Rightarrow> s
      | TwilioState r \<Rightarrow> s\<lparr>twilio := r\<rparr>
      | ElevenLabsState i r \<Rightarrow>
          if i < length (providers s) then s\<lparr>providers := (providers s)[i := r]\<rparr> else s)"

definition run_lenient :: "(js \<Rightarrow> nat list option) \<Rightarrow> relay \<Rightarrow> event list \<Rightarrow> relay" where
  "run_lenient fromObject s es = foldl (step_lenient fromObject) s es"

definition initial_lenient :: relay where
  "initial_lenient = \<lparr>streamSid = JNull, elevenLabsWs = None, twilio = OPEN, providers = [],
     pending = 0, calls = []\<rparr>"


section \<open>Observations on a run\<close>

text \<open>The calls that close a leg, and how many of them a list of calls holds.\<close>

fun isTwilioClose :: "action \<Rightarrow> bool" where
  "isTwilioClose (TwilioClose code reason) = True"
| "isTwilioClose TwilioCloseNoArgs = True"
| "isTwilioClose a = False"

fun isElevenLabsClose :: "action \<Rightarrow> bool" where
  "isElevenLabsClose (ElevenLabsClose i code reason) = True"
| "isElevenLabsClose (ElevenLabsCloseNoArgs i) = True"
| "isElevenLabsClose a = False"

definition twilioCloses :: "action list \<Rightarrow> nat" where
  "twilioCloses xs = length (filter isTwilioClose xs)"

definition elevenLabsCloses :: "action list \<Rightarrow> nat" where
  "elevenLabsCloses xs = length (filter isElevenLabsClose xs)"

text \<open>The calls issued between a state and a later one.\<close>

definition issued :: "'a relay_scheme \<Rightarrow> 'a relay_scheme \<Rightarrow> action list" where
  "issued s s' = drop (length (calls s)) (calls s')"

text \<open>
  The invariant behind the one-time teardown: a session that is not closing has closed
  neither leg, and a closing one has closed each leg once at most.
\<close>

definition closes_once :: "session \<Rightarrow> bool" where
  "closes_once s =
     (if isClosing s
      then twilioCloses (calls s) \<le> 1 \<and> elevenLabsCloses (calls s) \<le> 1
      else twilioCloses (calls s) = 0 \<and> elevenLabsCloses (calls s) = 0)"

text \<open>\<^verbatim>\<open>closeWithCode\<close> called once for every pair of a list, in order.\<close>

definition closeAll :: "session \<Rightarrow> (int \<times> string) list \<Rightarrow> session" where
  "closeAll s triggers = foldl (\<lambda>s (code, reason). closeWithCode code reason s) s triggers"

text \<open>The notifications that a leg has closed or failed.\<close>

fun closeNotification :: "event \<Rightarrow> bool" where
  "closeNotification (TwilioClosed code reason) = True"
| "closeNotification TwilioError = True"
| "closeNotification (ElevenLabsError i) = True"
| "closeNotification (ElevenLabsClosed i code reason) = True"
| "closeNotification e = False"

fun isElevenLabsSend :: "action \<Rightarrow> bool" where
  "isElevenLabsSend (ElevenLabsSend i v) = True"
| "isElevenLabsSend a = False"

fun isElevenLabsNew :: "action \<Rightarrow> bool" where
  "isElevenLabsNew (ElevenLabsNew i v) = True"
| "isElevenLabsNew a = False"

text \<open>A timer that was cleared or has fired.\<close>

definition timerSpent :: "nat \<Rightarrow> session \<Rightarrow> bool" where
  "timerSpent i s = (i < length (timers s) \<and> timers s ! i \<noteq> Armed)"

text \<open>
  Either \<^verbatim>\<open>streamSid\<close> is set, or no provider socket exists and no \<^verbatim>\<open>start\<close> handler is waiting
  for its URL.
\<close>

definition streamKnown :: "'a relay_scheme \<Rightarrow> bool" where
  "streamKnown s = (truthy (streamSid s) \<or> (elevenLabsWs s = None \<and> pending s = 0))"

section \<open>An example call\<close>

text \<open>
  The messages of the scenarios: a \<^verbatim>\<open>start\<close> with the stream \<^verbatim>\<open>SID1\<close>, a successful answer of
  the signed-URL endpoint, and the events that bring a session to the point where both legs
  are open. In the examples no payload is an array or an object.
\<close>

definition startMessage :: js where
  "startMessage = JObj [(''event'', JStr ''start''), (''start'', JObj [(''streamSid'', JStr ''SID1'')])]"

definition stopMessage :: js where
  "stopMessage = JObj [(''event'', JStr ''stop'')]"

definition mediaMessage :: "string \<Rightarrow> js" where
  "mediaMessage payload = JObj [(''event'', JStr ''media''), (''media'', JObj [(''payload'', JStr payload)])]"

definition audioEvent :: "string \<Rightarrow> js" where
  "audioEvent payload =
     JObj [(''type'', JStr ''audio''), (''audio_event'', JObj [(''audio_base_64'', JStr payload)])]"

definition interruptionEvent :: js where
  "interruptionEvent = JObj [(''type'', JStr ''interruption'')]"

definition signedUrl :: js where
  "signedUrl = JStr ''wss://api.elevenlabs.io/v1/convai/conversation?token=t''"

definition urlResponse :: fetch_result where
  "urlResponse = FetchResolves \<lparr>ok = True, statusText = ''OK'', json = Some (JObj [(''signed_url'', signedUrl)])\<rparr>"

definition errorResponse :: fetch_result where
  "errorResponse = FetchResolves \<lparr>ok = False, statusText = ''Unauthorized'', json = None\<rparr>"

definition noObjects :: "js \<Rightarrow> nat list option" where
  "noObjects v = None"

definition established :: "event list" where
  "established = [TwilioMessage (Some startMessage), SignedUrlSettled urlResponse True, ElevenLabsOpened 0]"

definition active :: session where
  "active = \<lparr>streamSid = JStr ''SID1'', elevenLabsWs = Some 0, twilio = OPEN, providers = [OPEN],
     pending = 0, calls = [ElevenLabsNew 0 signedUrl, SetTimeout 0 10000, ClearTimeout 0],
     isClosing = False, timers = [Cleared]\<rparr>"

definition active_lenient :: relay where
  "active_lenient = \<lparr>streamSid = JStr ''SID1'', elevenLabsWs = Some 0, twilio = OPEN, providers = [OPEN],
     pending = 0, calls = [ElevenLabsNew 0 signedUrl]\<rparr>"

text \<open>The same call before the provider socket has opened, and before the URL has come.\<close>

definition connecting :: session where
  "connecting = \<lparr>streamSid = JStr ''SID1'', elevenLabsWs = Some 0, twilio = OPEN, providers = [CONNECTING],
     pending = 0, calls = [ElevenLabsNew 0 signedUrl, SetTimeout 0 10000],
     isClosing = False, timers = [Armed]\<rparr>"

definition started :: session where
  "started = \<lparr>streamSid = JStr ''SID1'', elevenLabsWs = None, twilio = OPEN, providers = [],
     pending = 1, calls = [], isClosing = False, timers = []\<rparr>"

section \<open>Basic facts\<close>

lemma elevenLabsOpen_update [simp]:
  "elevenLabsOpen (s\<lparr>isClosing := b\<rparr>) = elevenLabsOpen s"
  "elevenLabsOpen (s\<lparr>timers := ts\<rparr>) = elevenLabsOpen s"
  "elevenLabsOpen (r\<lparr>calls := cs\<rparr>) = elevenLabsOpen r"
  "elevenLabsOpen (r\<lparr>pending := n\<rparr>) = elevenLabsOpen r"
  "elevenLabsOpen (r\<lparr>twilio := t\<rparr>) = elevenLabsOpen r"
  "elevenLabsOpen (r\<lparr>streamSid := v\<rparr>) = elevenLabsOpen r"
  by (simp_all add: elevenLabsOpen_def split: option.splits)

section \<open>The teardown happens once\<close>

lemma twilioCloses_simps:
  "twilioCloses [] = 0"
  "twilioCloses (x # xs) = (if isTwilioClose x then Suc (twilioCloses xs) else twilioCloses xs)"
  "twilioCloses (xs @ ys) = twilioCloses xs + twilioCloses ys"
  by (simp_all add: twilioCloses_def)

lemma elevenLabsCloses_simps:
  "elevenLabsCloses [] = 0"
  "elevenLabsCloses (x # xs) = (if isElevenLabsClose x then Suc (elevenLabsCloses xs) else elevenLabsCloses xs)"
  "elevenLabsCloses (xs @ ys) = elevenLabsCloses xs + elevenLabsCloses ys"
  by (simp_all add: elevenLabsCloses_def)

lemma closeWithCode_isClosing: "isClosing (closeWithCode code reason s)"
  by (simp add: closeWithCode_def closeTwilio_def closeElevenLabs_def split: option.splits)

lemma closeWithCode_noop: "isClosing s \<Longrightarrow> closeWithCode code reason s = s"
  by (simp add: closeWithCode_def)

lemma handle_no_close:
  "twilioCloses (handleElevenLabsMessage sid ws m) = 0 \<and>
   elevenLabsCloses (handleElevenLabsMessage sid ws m) = 0"
  by (simp add: handleElevenLabsMessage_def twilioCloses_simps elevenLabsCloses_simps split: option.splits)

lemma closeWithCode_closes_once: "closes_once s \<Longrightarrow> closes_once (closeWithCode code reason s)"
  by (auto simp: closes_once_def closeWithCode_def closeTwilio_def closeElevenLabs_def
        twilioCloses_simps elevenLabsCloses_simps
      split: option.splits if_splits)

lemma closes_once_update:
  "isClosing s' = isClosing s \<Longrightarrow> twilioCloses (calls s') = twilioCloses (calls s) \<Longrightarrow>
   elevenLabsCloses (calls s') = elevenLabsCloses (calls s) \<Longrightarrow> closes_once s \<Longrightarrow> closes_once s'"
  by (simp add: closes_once_def split: if_splits)

lemma media_closes_once: "closes_once s \<Longrightarrow> closes_once (media fo d s)"
  by (erule closes_once_update [rotated 3])
     (simp_all add: media_def twilioCloses_simps elevenLabsCloses_simps split: option.splits prod.splits)

lemma start_closes_once: "closes_once s \<Longrightarrow> closes_once (start d s)"
  by (auto simp: start_def closeWithCode_closes_once elim!: closes_once_update [rotated 3])

lemma twilioMessage_closes_once: "closes_once s \<Longrightarrow> closes_once (twilioMessage fo p s)"
  by (simp add: twilioMessage_def closeWithCode_closes_once media_closes_once start_closes_once
      split: option.splits)

lemma signedUrlSettled_closes_once: "closes_once s \<Longrightarrow> closes_once (signedUrlSettled r a s)"
  by (auto simp: signedUrlSettled_def connectElevenLabs_def twilioCloses_simps elevenLabsCloses_simps
      split: sum.splits
      intro!: closeWithCode_closes_once elim!: closes_once_update [rotated 3])

lemma elevenLabsMessage_closes_once: "closes_once s \<Longrightarrow> closes_once (elevenLabsMessage p s)"
  by (auto simp: elevenLabsMessage_def twilioCloses_simps elevenLabsCloses_simps handle_no_close
      split: option.splits elim!: closes_once_update [rotated 3])

lemma timeoutExpired_closes_once: "closes_once s \<Longrightarrow> closes_once (timeoutExpired i s)"
  by (auto simp: timeoutExpired_def
      intro!: closeWithCode_closes_once elim!: closes_once_update [rotated 3])

lemma step_closes_once: "closes_once s \<Longrightarrow> closes_once (step fo s e)"
  by (cases e)
     (auto simp: step_def twilioMessage_closes_once signedUrlSettled_closes_once
        elevenLabsMessage_closes_once timeoutExpired_closes_once elevenLabsOpened_def
        twilioCloses_simps elevenLabsCloses_simps
      intro!: closeWithCode_closes_once elim!: closes_once_update [rotated 3])

lemma run_closes_once: "closes_once s \<Longrightarrow> closes_once (run fo s es)"
  unfolding run_def by (induction es arbitrary: s) (simp_all add: step_closes_once)

lemma step_isClosing: "isClosing s \<Longrightarrow> isClosing (step fo s e)"
  by (cases e)
     (auto simp: step_def closeWithCode_noop twilioMessage_def start_def media_def
        signedUrlSettled_def connectElevenLabs_def elevenLabsOpened_def elevenLabsMessage_def
        timeoutExpired_def
      split: option.splits sum.splits prod.splits)

lemma run_isClosing: "isClosing s \<Longrightarrow> isClosing (run fo s es)"
  unfolding run_def by (induction es arbitrary: s) (auto simp: step_isClosing)

lemma closeAll_closing: "isClosing s \<Longrightarrow> closeAll s triggers = s"
  unfolding closeAll_def
  by (induction triggers arbitrary: s) (simp_all add: closeWithCode_noop split: prod.splits)

lemma closeAll_first: "closeAll s ((code, reason) # rest) = closeWithCode code reason s"
  using closeAll_closing [OF closeWithCode_isClosing, of code reason s rest]
  by (simp add: closeAll_def)

lemma issued_closeWithCode:
  "issued s (closeWithCode code reason s) =
     (if isClosing s then []
      else (case elevenLabsWs s of
              None \<Rightarrow> []
            | Some i \<Rightarrow> if elevenLabsOpen s then [ElevenLabsClose i 1000 ''Closing normally''] else [])
           @ (if twilio s = OPEN then [TwilioClose code reason] else []))"
  by (simp add: issued_def closeWithCode_def closeTwilio_def closeElevenLabs_def split: option.splits)

lemma closes_once_initial: "closes_once initial"
  by (simp add: closes_once_def initial_def twilioCloses_simps elevenLabsCloses_simps)

text \<open>
  Claim C1. Calling \<^verbatim>\<open>closeWithCode\<close> once or more does what the first call does: the calls
  after the first change nothing, whatever their code and reason, and whatever events the
  session handled in between. Each leg is closed once if the session was not closing and the
  leg was open, and not at all otherwise; over a whole run of the session, from its initial
  state and under any events, each leg is closed once at most.
\<close>

theorem closeWithCode_idempotent:
  "closeAll s ((code, reason) # rest) = closeWithCode code reason s \<and>
   closeWithCode code' reason' (run fromObject (closeWithCode code reason s) es)
     = run fromObject (closeWithCode code reason s) es \<and>
   twilioCloses (issued s (closeAll s ((code, reason) # rest)))
     = (if \<not> isClosing s \<and> twilio s = OPEN then 1 else 0) \<and>
   elevenLabsCloses (issued s (closeAll s ((code, reason) # rest)))
     = (if \<not> isClosing s \<and> elevenLabsOpen s then 1 else 0) \<and>
   twilioCloses (calls (run fromObject initial es)) \<le> 1 \<and>
   elevenLabsCloses (calls (run fromObject initial es)) \<le> 1"
proof -
  have later: "closeWithCode code' reason' (run fromObject (closeWithCode code reason s) es)
      = run fromObject (closeWithCode code reason s) es"
    by (rule closeWithCode_noop) (rule run_isClosing, rule closeWithCode_isClosing)
  have twilio_once: "twilioCloses (issued s (closeWithCode code reason s))
      = (if \<not> isClosing s \<and> twilio s = OPEN then 1 else 0)"
    by (simp add: issued_closeWithCode twilioCloses_simps elevenLabsOpen_def split: option.splits)
  have provider_once: "elevenLabsCloses (issued s (closeWithCode code reason s))
      = (if \<not> isClosing s \<and> elevenLabsOpen s then 1 else 0)"
    by (simp add: issued_closeWithCode elevenLabsCloses_simps elevenLabsOpen_def split: option.splits)
  have "closes_once (run fromObject initial es)"
    by (rule run_closes_once) (rule closes_once_initial)
  then have whole: "twilioCloses (calls (run fromObject initial es)) \<le> 1 \<and>
      elevenLabsCloses (calls (run fromObject initial es)) \<le> 1"
    by (simp add: closes_once_def split: if_splits)
  show ?thesis
    using later twilio_once provider_once whole by (simp add: closeAll_first)
qed

section \<open>Evaluating a run\<close>

lemmas handler_defs = step_def twilioMessage_def start_def media_def signedUrlSettled_def
  connectElevenLabs_def elevenLabsOpened_def elevenLabsMessage_def timeoutExpired_def
  closeWithCode_def closeTwilio_def closeElevenLabs_def getSignedUrl_def elevenLabsOpen_def

lemma run_Nil: "run fo s [] = s"
  by (simp add: run_def)

lemma run_Cons: "run fo s (e # es) = run fo (step fo s e) es"
  by (simp add: run_def)

lemma run_snoc: "run fo s (es @ [e]) = step fo (run fo s es) e"
  by (simp add: run_def)

lemma established_active: "run noObjects initial established = active"
  by (simp add: established_def run_Cons run_Nil initial_def active_def handler_defs
      startMessage_def urlResponse_def signedUrl_def)

lemma start_started: "run noObjects initial [TwilioMessage (Some startMessage)] = started"
  by (simp add: run_Cons run_Nil initial_def started_def handler_defs startMessage_def)

lemma started_connecting: "step noObjects started (SignedUrlSettled urlResponse True) = connecting"
  by (simp add: started_def connecting_def handler_defs urlResponse_def signedUrl_def)

lemma connecting_active: "step noObjects connecting (ElevenLabsOpened 0) = active"
  by (simp add: connecting_def active_def handler_defs)

lemma issued_self: "issued s s = []"
  by (simp add: issued_def)

lemma issued_append: "issued s (s\<lparr>calls := calls s @ xs\<rparr>) = xs"
  by (simp add: issued_def)

section \<open>Teardown with a code\<close>

lemma closing_notification_silent:
  "isClosing s \<Longrightarrow> closeNotification e \<Longrightarrow> issued s (step fo s e) = []"
  by (cases e) (simp_all add: step_def closeWithCode_def issued_def)

text \<open>
  Claim C5. When the teardown is triggered, that is \<^verbatim>\<open>closeWithCode\<close> is called with a code and a
  reason in a session that is not closing yet, the provider socket is closed with code 1000 if
  it is open, and the socket of Twilio is closed with the given code and reason if it is
  open; nothing else is issued. So it is when the trigger is the \<^verbatim>\<open>close\<close> event of a provider
  socket (which is closed itself by then, so only another, open socket held in
  \<^verbatim>\<open>elevenLabsWs\<close> is closed). After either trigger, any further notification of a close or
  an error, of either leg, issues no call.
\<close>

theorem teardown_propagates_code:
  assumes "\<not> isClosing s" and "i < length (providers s)"
  shows "issued s (closeWithCode code reason s) =
           (case elevenLabsWs s of
              None \<Rightarrow> []
            | Some j \<Rightarrow> if elevenLabsOpen s then [ElevenLabsClose j 1000 ''Closing normally''] else [])
           @ (if twilio s = OPEN then [TwilioClose code reason] else []) \<and>
         issued s (step fromObject s (ElevenLabsClosed i code reason)) =
           (case elevenLabsWs s of
              None \<Rightarrow> []
            | Some j \<Rightarrow>
                if j \<noteq> i \<and> elevenLabsOpen s then [ElevenLabsClose j 1000 ''Closing normally''] else [])
           @ (if twilio s = OPEN then [TwilioClose code reason] else []) \<and>
         (closeNotification e \<longrightarrow>
            issued (step fromObject s (ElevenLabsClosed i code reason))
              (step fromObject (step fromObject s (ElevenLabsClosed i code reason)) e) = [] \<and>
            issued (closeWithCode code reason s) (step fromObject (closeWithCode code reason s) e) = [])"
proof -
  have first: "issued s (closeWithCode code reason s) =
           (case elevenLabsWs s of
              None \<Rightarrow> []
            | Some j \<Rightarrow> if elevenLabsOpen s then [ElevenLabsClose j 1000 ''Closing normally''] else [])
           @ (if twilio s = OPEN then [TwilioClose code reason] else [])"
    using assms(1) by (simp add: issued_closeWithCode)
  have closed: "step fromObject s (ElevenLabsClosed i code reason) =
      closeWithCode code reason (s\<lparr>providers := (providers s)[i := CLOSED]\<rparr>)"
    using assms(2) by (simp add: step_def)
  have second: "issued s (step fromObject s (ElevenLabsClosed i code reason)) =
           (case elevenLabsWs s of
              None \<Rightarrow> []
            | Some j \<Rightarrow>
                if j \<noteq> i \<and> elevenLabsOpen s then [ElevenLabsClose j 1000 ''Closing normally''] else [])
           @ (if twilio s = OPEN then [TwilioClose code reason] else [])"
    using assms
    by (auto simp: closed issued_def closeWithCode_def closeTwilio_def closeElevenLabs_def
        elevenLabsOpen_def nth_list_update split: option.splits)
  have "isClosing (step fromObject s (ElevenLabsClosed i code reason))"
    by (simp add: closed closeWithCode_isClosing)
  then have third: "closeNotification e \<longrightarrow>
            issued (step fromObject s (ElevenLabsClosed i code reason))
              (step fromObject (step fromObject s (ElevenLabsClosed i code reason)) e) = []"
    by (simp add: closing_notification_silent)
  have fourth: "closeNotification e \<longrightarrow>
            issued (closeWithCode code reason s) (step fromObject (closeWithCode code reason s) e) = []"
    by (simp add: closing_notification_silent closeWithCode_isClosing)
  show ?thesis using first second third fourth by blast
qed

theorem teardown_propagates_code_witness:
  "issued active (step noObjects active (ElevenLabsClosed 0 1011 ''internal error'')) =
     [TwilioClose 1011 ''internal error''] \<and>
   issued (step noObjects active (ElevenLabsClosed 0 1011 ''internal error''))
     (step noObjects (step noObjects active (ElevenLabsClosed 0 1011 ''internal error''))
        (ElevenLabsClosed 0 1011 ''internal error'')) = [] \<and>
   issued active (closeWithCode 1000 ''Stop event received'' active) =
     [ElevenLabsClose 0 1000 ''Closing normally'', TwilioClose 1000 ''Stop event received'']"
  using teardown_propagates_code [of active 0 1011 "''internal error''" noObjects
          "ElevenLabsClosed 0 1011 ''internal error''"]
        teardown_propagates_code [of active 0 1000 "''Stop event received''" noObjects TwilioError]
  by (simp add: active_def elevenLabsOpen_def)

section \<open>The two variants of the provider handler\<close>

text \<open>
  Claim C10. For every decoded provider message, every value of \<^verbatim>\<open>streamSid\<close> and every value
  of \<^verbatim>\<open>elevenLabsWs\<close>, \<^verbatim>\<open>handleElevenLabsMessage\<close> of the second file issues the same calls, on
  both legs, as \<^verbatim>\<open>handleElevenLabsMessage\<close> of \<^verbatim>\<open>src/inbound-calls.js\<close>.
\<close>

theorem handleElevenLabsMessage_variants_agree:
  "handleElevenLabsMessage_lenient sid ws message = handleElevenLabsMessage sid ws message"
  by (simp add: handleElevenLabsMessage_lenient_def handleElevenLabsMessage_def)


section \<open>Provider messages: interruption and audio\<close>

lemma prop_of_string_object:
  "prop_of message k = JStr v \<Longrightarrow> truthy message \<and> typeof_object message"
  by (cases message) simp_all

lemma handle_interruption:
  "prop_of message ''type'' = JStr ''interruption'' \<Longrightarrow>
   handleElevenLabsMessage sid ws message = [TwilioSend (clearFrame sid)]"
  using prop_of_string_object [of message "''type''" "''interruption''"]
  by (simp add: handleElevenLabsMessage_def)

lemma handle_audio:
  "prop_of message ''type'' = JStr ''audio'' \<Longrightarrow>
   handleElevenLabsMessage sid ws message =
     (if truthy (prop_of (prop_of message ''audio_event'') ''audio_base_64'') \<and> truthy sid \<and>
         isBase64 (prop_of (prop_of message ''audio_event'') ''audio_base_64'')
      then [TwilioSend (mediaFrame sid (prop_of (prop_of message ''audio_event'') ''audio_base_64''))]
      else [])"
  using prop_of_string_object [of message "''type''" "''audio''"]
  by (cases "prop_of message ''audio_event''") (simp_all add: handleElevenLabsMessage_def opt_chain_def)

text \<open>
  Claim C9, as amended. A provider message of type \<^verbatim>\<open>interruption\<close> that is handled while the
  socket of Twilio is open issues one call and no other: the frame \<^verbatim>\<open>{event: "clear", streamSid}\<close>
  with the current value of \<^verbatim>\<open>streamSid\<close>, sent to Twilio. While that socket is not open
  the message handler returns before \<^verbatim>\<open>handleElevenLabsMessage\<close> is called, and nothing is
  issued. \<^verbatim>\<open>handleElevenLabsMessage\<close> itself issues the one frame for every value of its
  variables.
\<close>

theorem interruption_clears_open_twilio:
  assumes "prop_of message ''type'' = JStr ''interruption''" and "i < length (providers s)"
  shows "handleElevenLabsMessage sid ws message = [TwilioSend (clearFrame sid)] \<and>
         step fromObject s (ElevenLabsMessage i (Some message)) =
           (if twilio s = OPEN then s\<lparr>calls := calls s @ [TwilioSend (clearFrame (streamSid s))]\<rparr>
            else s)"
  using assms by (simp add: handle_interruption step_def elevenLabsMessage_def)

theorem interruption_clears_open_twilio_witness:
  "step noObjects active (ElevenLabsMessage 0 (Some interruptionEvent)) =
     active\<lparr>calls := calls active @ [TwilioSend (JObj [(''event'', JStr ''clear''), (''streamSid'', JStr ''SID1'')])]\<rparr> \<and>
   step noObjects (active\<lparr>twilio := CLOSED\<rparr>) (ElevenLabsMessage 0 (Some interruptionEvent)) =
     active\<lparr>twilio := CLOSED\<rparr>"
  using interruption_clears_open_twilio
          [where message = interruptionEvent and i = 0 and s = active and fromObject = noObjects]
        interruption_clears_open_twilio
          [where message = interruptionEvent and i = 0 and s = "active\<lparr>twilio := CLOSED\<rparr>"
             and fromObject = noObjects]
  by (simp add: interruptionEvent_def active_def clearFrame_def)

text \<open>
  The claim as stated, for any session state, fails: after a \<^verbatim>\<open>stop\<close> the socket of Twilio is
  closing, and an interruption of the provider that arrives then issues nothing.
\<close>

theorem interruption_dropped_counterexample:
  "twilio (run noObjects initial (established @ [TwilioMessage (Some stopMessage)])) = CLOSING \<and>
   issued (run noObjects initial (established @ [TwilioMessage (Some stopMessage)]))
     (step noObjects (run noObjects initial (established @ [TwilioMessage (Some stopMessage)]))
        (ElevenLabsMessage 0 (Some interruptionEvent))) = []"
  by (simp add: run_snoc established_active)
     (simp add: active_def stopMessage_def interruptionEvent_def handler_defs issued_def)

text \<open>
  Claim C3, as amended. A provider message of type \<^verbatim>\<open>audio\<close> that is handled while the socket
  of Twilio is open is forwarded when its payload is present and not empty, \<^verbatim>\<open>streamSid\<close> is
  set, and the payload (as a string) is one character or more of the base64 class; the frame is
  \<^verbatim>\<open>{event: "media", streamSid, media: {payload}}\<close> with the payload as it came. In every
  other case the message is dropped and the session is left as it was, so nothing is closed.
  The first part is \<^verbatim>\<open>handleElevenLabsMessage\<close> alone.
\<close>

theorem audio_forwarding:
  assumes "prop_of message ''type'' = JStr ''audio''" and "i < length (providers s)"
  shows "handleElevenLabsMessage sid ws message =
           (if truthy (prop_of (prop_of message ''audio_event'') ''audio_base_64'') \<and> truthy sid \<and>
               isBase64 (prop_of (prop_of message ''audio_event'') ''audio_base_64'')
            then [TwilioSend (mediaFrame sid (prop_of (prop_of message ''audio_event'') ''audio_base_64''))]
            else []) \<and>
         step fromObject s (ElevenLabsMessage i (Some message)) =
           (if twilio s = OPEN \<and> truthy (prop_of (prop_of message ''audio_event'') ''audio_base_64'') \<and>
               truthy (streamSid s) \<and> isBase64 (prop_of (prop_of message ''audio_event'') ''audio_base_64'')
            then s\<lparr>calls := calls s @
                   [TwilioSend (mediaFrame (streamSid s) (prop_of (prop_of message ''audio_event'') ''audio_base_64''))]\<rparr>
            else s)"
  using assms by (simp add: handle_audio step_def elevenLabsMessage_def)

lemma isBase64_QUJD: "isBase64 (JStr ''QUJD'')"
  by (simp add: isBase64_def base64_class_def)

theorem audio_forwarding_witness:
  "step noObjects active (ElevenLabsMessage 0 (Some (audioEvent ''QUJD''))) =
     active\<lparr>calls := calls active @
       [TwilioSend (JObj [(''event'', JStr ''media''), (''streamSid'', JStr ''SID1''),
                          (''media'', JObj [(''payload'', JStr ''QUJD'')])])]\<rparr> \<and>
   step noObjects active (ElevenLabsMessage 0 (Some (audioEvent ''QUJD!''))) = active \<and>
   step noObjects (active\<lparr>streamSid := JNull\<rparr>) (ElevenLabsMessage 0 (Some (audioEvent ''QUJD''))) =
     active\<lparr>streamSid := JNull\<rparr>"
  using audio_forwarding
          [where message = "audioEvent ''QUJD''" and i = 0 and s = active and fromObject = noObjects]
        audio_forwarding
          [where message = "audioEvent ''QUJD!''" and i = 0 and s = active and fromObject = noObjects]
        audio_forwarding
          [where message = "audioEvent ''QUJD''" and i = 0 and s = "active\<lparr>streamSid := JNull\<rparr>"
             and fromObject = noObjects]
  by (simp add: audioEvent_def active_def mediaFrame_def isBase64_def base64_class_def)

text \<open>
  The claim as stated fails on two inputs that have \<^verbatim>\<open>streamSid\<close> set and no character outside
  the class: the empty payload, which is dropped, and a well-formed payload that arrives while
  the socket of Twilio is closing.
\<close>

theorem audio_dropped_counterexample:
  "list_all base64_class '''' \<and> truthy (streamSid active) \<and>
   step noObjects active (ElevenLabsMessage 0 (Some (audioEvent ''''))) = active \<and>
   isBase64 (JStr ''QUJD'') \<and>
   truthy (streamSid (run noObjects initial (established @ [TwilioMessage (Some stopMessage)]))) \<and>
   issued (run noObjects initial (established @ [TwilioMessage (Some stopMessage)]))
     (step noObjects (run noObjects initial (established @ [TwilioMessage (Some stopMessage)]))
        (ElevenLabsMessage 0 (Some (audioEvent ''QUJD'')))) = []"
  by (simp add: run_snoc established_active isBase64_QUJD)
     (simp add: active_def stopMessage_def audioEvent_def handler_defs issued_def
        handleElevenLabsMessage_def opt_chain_def)


section \<open>The signed URL settles\<close>

lemma getSignedUrl_fails:
  "r = FetchRejects \<or> (\<exists>resp. r = FetchResolves resp \<and> \<not> ok resp) \<Longrightarrow> isl (getSignedUrl r)"
  by (auto simp: getSignedUrl_def)

lemma settled_failure:
  "0 < pending s \<Longrightarrow> isl (getSignedUrl r) \<Longrightarrow>
   step fo s (SignedUrlSettled r accepted) =
     closeWithCode 1011 ''Failed to initialize ElevenLabs connection'' (s\<lparr>pending := pending s - 1\<rparr>)"
  by (auto simp: step_def signedUrlSettled_def split: sum.splits)

lemma settled_success:
  "0 < pending s \<Longrightarrow> getSignedUrl r = Inr url \<Longrightarrow>
   step fo s (SignedUrlSettled r True) = connectElevenLabs url (s\<lparr>pending := pending s - 1\<rparr>)"
  by (simp add: step_def signedUrlSettled_def)

lemma closeWithCode_providers_length:
  "length (providers (closeWithCode code reason s)) = length (providers s)"
  by (simp add: closeWithCode_def closeTwilio_def closeElevenLabs_def split: option.splits)

lemma issued_pending: "issued s (closeWithCode code reason (s\<lparr>pending := n\<rparr>)) = issued s (closeWithCode code reason s)"
  by (simp add: issued_def closeWithCode_def closeTwilio_def closeElevenLabs_def split: option.splits)

text \<open>
  Claim C6. When the fetch of the signed URL fails, by a transport failure or by a response
  whose status is not a success, \<^verbatim>\<open>getSignedUrl\<close> throws, and the \<^verbatim>\<open>start\<close> handler that awaited
  it calls \<^verbatim>\<open>closeWithCode(1011, ...)\<close> and nothing else: no provider socket is created. In a
  session that is not closing yet and whose socket of Twilio is open, that closes the socket of
  Twilio with the code 1011.
\<close>

theorem failed_fetch_closes_twilio:
  assumes "0 < pending s"
    and "r = FetchRejects \<or> (\<exists>resp. r = FetchResolves resp \<and> \<not> ok resp)"
  shows "isl (getSignedUrl r) \<and>
         step fromObject s (SignedUrlSettled r accepted) =
           closeWithCode 1011 ''Failed to initialize ElevenLabs connection'' (s\<lparr>pending := pending s - 1\<rparr>) \<and>
         length (providers (step fromObject s (SignedUrlSettled r accepted))) = length (providers s) \<and>
         \<not> list_ex isElevenLabsNew (issued s (step fromObject s (SignedUrlSettled r accepted))) \<and>
         (\<not> isClosing s \<and> twilio s = OPEN \<longrightarrow>
            isClosing (step fromObject s (SignedUrlSettled r accepted)) \<and>
            issued s (step fromObject s (SignedUrlSettled r accepted)) =
              (case elevenLabsWs s of
                 None \<Rightarrow> []
               | Some j \<Rightarrow> if elevenLabsOpen s then [ElevenLabsClose j 1000 ''Closing normally''] else [])
              @ [TwilioClose 1011 ''Failed to initialize ElevenLabs connection''])"
proof -
  have fails: "isl (getSignedUrl r)"
    using assms(2) by (rule getSignedUrl_fails)
  have eq: "step fromObject s (SignedUrlSettled r accepted) =
      closeWithCode 1011 ''Failed to initialize ElevenLabs connection'' (s\<lparr>pending := pending s - 1\<rparr>)"
    using assms(1) fails by (rule settled_failure)
  have calls: "issued s (step fromObject s (SignedUrlSettled r accepted)) =
      (if isClosing s then []
       else (case elevenLabsWs s of
               None \<Rightarrow> []
             | Some j \<Rightarrow> if elevenLabsOpen s then [ElevenLabsClose j 1000 ''Closing normally''] else [])
            @ (if twilio s = OPEN then [TwilioClose 1011 ''Failed to initialize ElevenLabs connection''] else []))"
    by (simp only: eq issued_pending issued_closeWithCode)
  have none: "\<not> list_ex isElevenLabsNew (issued s (step fromObject s (SignedUrlSettled r accepted)))"
    by (simp add: calls split: option.splits)
  show ?thesis
    using fails eq none calls
    by (simp add: closeWithCode_providers_length closeWithCode_isClosing)
qed

theorem failed_fetch_closes_twilio_witness:
  "issued started (step noObjects started (SignedUrlSettled errorResponse True)) =
     [TwilioClose 1011 ''Failed to initialize ElevenLabs connection''] \<and>
   providers (step noObjects started (SignedUrlSettled errorResponse True)) = [] \<and>
   issued started (step noObjects started (SignedUrlSettled FetchRejects True)) =
     [TwilioClose 1011 ''Failed to initialize ElevenLabs connection''] \<and>
   isClosing (step noObjects started (SignedUrlSettled FetchRejects True))"
proof -
  have p1: "0 < pending started"
    by (simp add: started_def)
  have p2: "errorResponse = FetchRejects \<or> (\<exists>resp. errorResponse = FetchResolves resp \<and> \<not> ok resp)"
    by (simp add: errorResponse_def)
  have p3: "FetchRejects = FetchRejects \<or> (\<exists>resp. FetchRejects = FetchResolves resp \<and> \<not> ok resp)"
    by simp
  have p4: "\<not> isClosing started \<and> twilio started = OPEN \<and> elevenLabsWs started = None \<and>
      providers started = []"
    by (simp add: started_def)
  show ?thesis
    using p4
      failed_fetch_closes_twilio [OF p1 p2, where fromObject = noObjects and accepted = True]
      failed_fetch_closes_twilio [OF p1 p3, where fromObject = noObjects and accepted = True]
    by clarsimp
qed


section \<open>The connect timer\<close>

lemma issued_connect:
  "issued s (connectElevenLabs url (s\<lparr>pending := n\<rparr>)) =
     [ElevenLabsNew (length (providers s)) url, SetTimeout (length (providers s)) 10000]"
  by (simp add: issued_def connectElevenLabs_def)

lemma nth_update_any: "xs[i := x] ! j = (if i = j \<and> i < length xs then x else xs ! j)"
  by (cases "i < length xs") (auto simp: nth_list_update list_update_beyond)

lemma closeWithCode_timers: "timers (closeWithCode code reason s) = timers s"
  by (simp add: closeWithCode_def closeTwilio_def closeElevenLabs_def split: option.splits)

lemma step_timerSpent: "timerSpent i s \<Longrightarrow> timerSpent i (step fo s e)"
  by (cases e)
     (auto simp: timerSpent_def step_def closeWithCode_timers twilioMessage_def start_def media_def
        signedUrlSettled_def connectElevenLabs_def elevenLabsOpened_def elevenLabsMessage_def
        timeoutExpired_def nth_append nth_update_any
      split: option.splits sum.splits prod.splits if_splits)

lemma run_timerSpent: "timerSpent i s \<Longrightarrow> timerSpent i (run fo s es)"
  unfolding run_def by (induction es arbitrary: s) (simp_all add: step_timerSpent)

lemma spent_timer_silent: "timerSpent i s \<Longrightarrow> step fo s (TimeoutExpired i) = s"
  by (simp add: timerSpent_def step_def)

lemma opened_timerSpent:
  "i < length (providers s) \<Longrightarrow> providers s ! i = CONNECTING \<Longrightarrow> i < length (timers s) \<Longrightarrow>
   timerSpent i (step fo s (ElevenLabsOpened i))"
  by (simp add: timerSpent_def step_def elevenLabsOpened_def)

text \<open>
  Claim C7. When the fetch has given a URL, the \<^verbatim>\<open>start\<close> handler creates the provider socket
  and arms a timer of 10000 milliseconds for it. If that timer expires while the socket, still
  the one held in \<^verbatim>\<open>elevenLabsWs\<close>, is not open and the session is not closing yet, the session
  begins closing by \<^verbatim>\<open>closeWithCode(1006, "ElevenLabs connection timeout")\<close>, which closes the
  socket of Twilio with that code if it is open. If the socket opens first, its \<^verbatim>\<open>open\<close> handler
  clears the timer, and from then on, whatever events follow, the timer's expiry is no event
  of the session: it closes nothing.
\<close>

theorem connect_timeout:
  "(0 < pending s \<and> getSignedUrl r = Inr url \<longrightarrow>
      step fromObject s (SignedUrlSettled r True) = connectElevenLabs url (s\<lparr>pending := pending s - 1\<rparr>) \<and>
      issued s (step fromObject s (SignedUrlSettled r True)) =
        [ElevenLabsNew (length (providers s)) url, SetTimeout (length (providers s)) 10000] \<and>
      elevenLabsWs (step fromObject s (SignedUrlSettled r True)) = Some (length (providers s)) \<and>
      providers (step fromObject s (SignedUrlSettled r True)) = providers s @ [CONNECTING] \<and>
      timers (step fromObject s (SignedUrlSettled r True)) = timers s @ [Armed]) \<and>
   (i < length (timers s) \<and> timers s ! i = Armed \<and> elevenLabsWs s = Some i \<and>
    i < length (providers s) \<and> providers s ! i \<noteq> OPEN \<and> \<not> isClosing s \<longrightarrow>
      step fromObject s (TimeoutExpired i) =
        closeWithCode 1006 ''ElevenLabs connection timeout'' (s\<lparr>timers := (timers s)[i := Fired]\<rparr>) \<and>
      isClosing (step fromObject s (TimeoutExpired i)) \<and>
      issued s (step fromObject s (TimeoutExpired i)) =
        (if twilio s = OPEN then [TwilioClose 1006 ''ElevenLabs connection timeout''] else [])) \<and>
   (i < length (timers s) \<and> i < length (providers s) \<and> providers s ! i = CONNECTING \<longrightarrow>
      providers (step fromObject s (ElevenLabsOpened i)) ! i = OPEN \<and>
      timers (step fromObject s (ElevenLabsOpened i)) ! i \<noteq> Armed \<and>
      issued s (step fromObject s (ElevenLabsOpened i)) = [ClearTimeout i] \<and>
      step fromObject (run fromObject (step fromObject s (ElevenLabsOpened i)) es) (TimeoutExpired i) =
        run fromObject (step fromObject s (ElevenLabsOpened i)) es)"
proof (intro conjI impI)
  assume a: "0 < pending s \<and> getSignedUrl r = Inr url"
  then have eq: "step fromObject s (SignedUrlSettled r True) =
      connectElevenLabs url (s\<lparr>pending := pending s - 1\<rparr>)"
    by (simp add: settled_success)
  show "step fromObject s (SignedUrlSettled r True) =
      connectElevenLabs url (s\<lparr>pending := pending s - 1\<rparr>)"
    by (rule eq)
  show "issued s (step fromObject s (SignedUrlSettled r True)) =
      [ElevenLabsNew (length (providers s)) url, SetTimeout (length (providers s)) 10000]"
    by (simp only: eq issued_connect)
  show "elevenLabsWs (step fromObject s (SignedUrlSettled r True)) = Some (length (providers s))"
    by (simp add: eq connectElevenLabs_def)
  show "providers (step fromObject s (SignedUrlSettled r True)) = providers s @ [CONNECTING]"
    by (simp add: eq connectElevenLabs_def)
  show "timers (step fromObject s (SignedUrlSettled r True)) = timers s @ [Armed]"
    by (simp add: eq connectElevenLabs_def)
next
  assume b: "i < length (timers s) \<and> timers s ! i = Armed \<and> elevenLabsWs s = Some i \<and>
    i < length (providers s) \<and> providers s ! i \<noteq> OPEN \<and> \<not> isClosing s"
  then have eq: "step fromObject s (TimeoutExpired i) =
      closeWithCode 1006 ''ElevenLabs connection timeout'' (s\<lparr>timers := (timers s)[i := Fired]\<rparr>)"
    by (simp add: step_def timeoutExpired_def elevenLabsOpen_def)
  show "step fromObject s (TimeoutExpired i) =
      closeWithCode 1006 ''ElevenLabs connection timeout'' (s\<lparr>timers := (timers s)[i := Fired]\<rparr>)"
    by (rule eq)
  show "isClosing (step fromObject s (TimeoutExpired i))"
    by (simp add: eq closeWithCode_isClosing)
  show "issued s (step fromObject s (TimeoutExpired i)) =
      (if twilio s = OPEN then [TwilioClose 1006 ''ElevenLabs connection timeout''] else [])"
    using b
    by (simp add: eq issued_def closeWithCode_def closeTwilio_def closeElevenLabs_def elevenLabsOpen_def)
next
  assume c: "i < length (timers s) \<and> i < length (providers s) \<and> providers s ! i = CONNECTING"
  then show "providers (step fromObject s (ElevenLabsOpened i)) ! i = OPEN"
    by (simp add: step_def elevenLabsOpened_def)
  from c show "timers (step fromObject s (ElevenLabsOpened i)) ! i \<noteq> Armed"
    by (simp add: step_def elevenLabsOpened_def)
  from c show "issued s (step fromObject s (ElevenLabsOpened i)) = [ClearTimeout i]"
    by (simp add: step_def elevenLabsOpened_def issued_def)
  from c have "timerSpent i (step fromObject s (ElevenLabsOpened i))"
    by (simp add: opened_timerSpent)
  then have "timerSpent i (run fromObject (step fromObject s (ElevenLabsOpened i)) es)"
    by (rule run_timerSpent)
  then show "step fromObject (run fromObject (step fromObject s (ElevenLabsOpened i)) es) (TimeoutExpired i) =
      run fromObject (step fromObject s (ElevenLabsOpened i)) es"
    by (rule spent_timer_silent)
qed


theorem connect_timeout_witness:
  "issued started (step noObjects started (SignedUrlSettled urlResponse True)) =
     [ElevenLabsNew 0 signedUrl, SetTimeout 0 10000] \<and>
   issued connecting (step noObjects connecting (TimeoutExpired 0)) =
     [TwilioClose 1006 ''ElevenLabs connection timeout''] \<and>
   step noObjects connecting (ElevenLabsOpened 0) = active \<and>
   step noObjects (run noObjects active [TwilioMessage (Some (mediaMessage ''QUJD''))]) (TimeoutExpired 0) =
     run noObjects active [TwilioMessage (Some (mediaMessage ''QUJD''))]"
proof -
  have p1: "0 < pending started \<and> getSignedUrl urlResponse = Inr signedUrl"
    by (simp add: started_def getSignedUrl_def urlResponse_def)
  have p2: "0 < length (timers connecting) \<and> timers connecting ! 0 = Armed \<and>
      elevenLabsWs connecting = Some 0 \<and> 0 < length (providers connecting) \<and>
      providers connecting ! 0 \<noteq> OPEN \<and> \<not> isClosing connecting"
    by (simp add: connecting_def)
  have p3: "0 < length (timers connecting) \<and> 0 < length (providers connecting) \<and>
      providers connecting ! 0 = CONNECTING"
    by (simp add: connecting_def)
  have c1: "issued started (step noObjects started (SignedUrlSettled urlResponse True)) =
      [ElevenLabsNew (length (providers started)) signedUrl, SetTimeout (length (providers started)) 10000]"
    using p1 connect_timeout
      [where s = started and r = urlResponse and url = signedUrl and fromObject = noObjects]
    by blast
  have c2: "issued connecting (step noObjects connecting (TimeoutExpired 0)) =
      (if twilio connecting = OPEN then [TwilioClose 1006 ''ElevenLabs connection timeout''] else [])"
    using p2 connect_timeout [where s = connecting and i = 0 and fromObject = noObjects]
    by blast
  have c3: "step noObjects
        (run noObjects (step noObjects connecting (ElevenLabsOpened 0))
           [TwilioMessage (Some (mediaMessage ''QUJD''))]) (TimeoutExpired 0) =
      run noObjects (step noObjects connecting (ElevenLabsOpened 0))
        [TwilioMessage (Some (mediaMessage ''QUJD''))]"
    using p3 connect_timeout
      [where s = connecting and i = 0 and fromObject = noObjects
         and es = "[TwilioMessage (Some (mediaMessage ''QUJD''))]"]
    by blast
  have c4: "length (providers started) = 0 \<and> twilio connecting = OPEN"
    by (simp add: started_def connecting_def)
  show ?thesis
    using c1 c2 c3 c4 by (simp add: connecting_active)
qed

section \<open>A fetch that settles in a closing session\<close>

text \<open>
  Claim C8 as stated fails: the rest of the \<^verbatim>\<open>start\<close> handler does not read \<^verbatim>\<open>isClosing\<close>. After
  a \<^verbatim>\<open>start\<close> and a \<^verbatim>\<open>stop\<close> the session is closing, and the URL that arrives then is used to
  create the provider socket.
\<close>

theorem closing_session_connects_counterexample:
  "isClosing (run noObjects initial [TwilioMessage (Some startMessage), TwilioMessage (Some stopMessage)]) \<and>
   issued (run noObjects initial [TwilioMessage (Some startMessage), TwilioMessage (Some stopMessage)])
     (run noObjects initial [TwilioMessage (Some startMessage), TwilioMessage (Some stopMessage),
        SignedUrlSettled urlResponse True]) =
     [ElevenLabsNew 0 signedUrl, SetTimeout 0 10000]"
  by (simp add: run_Cons run_Nil initial_def handler_defs startMessage_def stopMessage_def
        urlResponse_def signedUrl_def issued_def)

text \<open>
  Claim C8, as amended. A fetch that gives a URL is never discarded: whether the session is
  closing or not, the handler creates the provider socket, stores it in \<^verbatim>\<open>elevenLabsWs\<close> and
  arms its timer, and leaves \<^verbatim>\<open>isClosing\<close> as it is. Only a fetch that fails has no effect in a
  closing session: no call is issued and no socket is created.
\<close>

theorem fetch_result_used_while_closing:
  assumes "0 < pending s" and "getSignedUrl r = Inr url"
  shows "issued s (step fromObject s (SignedUrlSettled r True)) =
           [ElevenLabsNew (length (providers s)) url, SetTimeout (length (providers s)) 10000] \<and>
         elevenLabsWs (step fromObject s (SignedUrlSettled r True)) = Some (length (providers s)) \<and>
         providers (step fromObject s (SignedUrlSettled r True)) = providers s @ [CONNECTING] \<and>
         isClosing (step fromObject s (SignedUrlSettled r True)) = isClosing s \<and>
         (isClosing s \<and> isl (getSignedUrl r') \<longrightarrow>
            issued s (step fromObject s (SignedUrlSettled r' accepted)) = [] \<and>
            providers (step fromObject s (SignedUrlSettled r' accepted)) = providers s)"
  using assms
  by (auto simp: settled_success settled_failure issued_connect connectElevenLabs_def
        closeWithCode_def issued_def)

theorem fetch_result_used_while_closing_witness:
  "isClosing (closeWithCode 1000 ''Stop event received'' started) \<and>
   issued (closeWithCode 1000 ''Stop event received'' started)
     (step noObjects (closeWithCode 1000 ''Stop event received'' started) (SignedUrlSettled urlResponse True)) =
     [ElevenLabsNew 0 signedUrl, SetTimeout 0 10000] \<and>
   issued (closeWithCode 1000 ''Stop event received'' started)
     (step noObjects (closeWithCode 1000 ''Stop event received'' started) (SignedUrlSettled errorResponse True)) = []"
proof -
  have stopped: "closeWithCode 1000 ''Stop event received'' started =
      started\<lparr>twilio := CLOSING, calls := [TwilioClose 1000 ''Stop event received''], isClosing := True\<rparr>"
    by (simp add: started_def closeWithCode_def closeTwilio_def closeElevenLabs_def)
  have p1: "0 < pending (closeWithCode 1000 ''Stop event received'' started)"
    by (simp add: stopped) (simp add: started_def)
  have p2: "getSignedUrl urlResponse = Inr signedUrl"
    by (simp add: getSignedUrl_def urlResponse_def)
  have p3: "isClosing (closeWithCode 1000 ''Stop event received'' started) \<and>
      isl (getSignedUrl errorResponse)"
    by (simp add: closeWithCode_isClosing getSignedUrl_def errorResponse_def)
  have p4: "length (providers (closeWithCode 1000 ''Stop event received'' started)) = 0"
    by (simp add: stopped) (simp add: started_def)
  show ?thesis
    using p3 p4 fetch_result_used_while_closing
      [OF p1 p2, where fromObject = noObjects and r' = errorResponse and accepted = True]
    by simp
qed


section \<open>Media frames of Twilio\<close>

lemma streamKnown_kept:
  "streamSid s' = streamSid s \<Longrightarrow> elevenLabsWs s' = elevenLabsWs s \<Longrightarrow> pending s' \<le> pending s \<Longrightarrow>
   streamKnown s \<Longrightarrow> streamKnown s'"
  by (auto simp: streamKnown_def)

lemma streamKnown_set: "truthy (streamSid s) \<Longrightarrow> streamKnown s"
  by (simp add: streamKnown_def)

lemma closeWithCode_streamKnown: "streamKnown s \<Longrightarrow> streamKnown (closeWithCode code reason s)"
  by (erule streamKnown_kept [rotated 3])
     (simp_all add: closeWithCode_def closeTwilio_def closeElevenLabs_def split: option.splits)

lemma media_streamKnown: "streamKnown s \<Longrightarrow> streamKnown (media fo data s)"
  by (erule streamKnown_kept [rotated 3])
     (simp_all add: media_def split: option.splits prod.splits)

lemma start_streamKnown: "streamKnown s \<Longrightarrow> streamKnown (start data s)"
  by (simp add: start_def closeWithCode_streamKnown streamKnown_set)

lemma twilioMessage_streamKnown: "streamKnown s \<Longrightarrow> streamKnown (twilioMessage fo parsed s)"
  by (simp add: twilioMessage_def closeWithCode_streamKnown media_streamKnown start_streamKnown
      split: option.splits)

lemma pending_streamKnown: "streamKnown s \<Longrightarrow> streamKnown (s\<lparr>pending := pending s - Suc 0\<rparr>)"
  by (erule streamKnown_kept [rotated 3]) simp_all

lemma connect_streamKnown:
  "streamKnown s \<Longrightarrow> 0 < pending s \<Longrightarrow>
   streamKnown (connectElevenLabs url (s\<lparr>pending := pending s - Suc 0\<rparr>))"
  by (simp add: streamKnown_def connectElevenLabs_def)

lemma signedUrlSettled_streamKnown: "streamKnown s \<Longrightarrow> streamKnown (signedUrlSettled r a s)"
  by (simp add: signedUrlSettled_def closeWithCode_streamKnown pending_streamKnown connect_streamKnown
      split: sum.splits)

lemma elevenLabsMessage_streamKnown: "streamKnown s \<Longrightarrow> streamKnown (elevenLabsMessage p s)"
  by (erule streamKnown_kept [rotated 3])
     (simp_all add: elevenLabsMessage_def split: option.splits)

lemma timeoutExpired_streamKnown: "streamKnown s \<Longrightarrow> streamKnown (timeoutExpired i s)"
proof -
  assume "streamKnown s"
  then have "streamKnown (s\<lparr>timers := (timers s)[i := Fired]\<rparr>)"
    by (rule streamKnown_kept [rotated 3]) simp_all
  then show ?thesis
    by (simp add: timeoutExpired_def closeWithCode_streamKnown)
qed

lemma step_streamKnown: "streamKnown s \<Longrightarrow> streamKnown (step fo s e)"
proof (cases e)
  case (TwilioClosed code reason)
  assume "streamKnown s"
  then have "streamKnown (s\<lparr>twilio := CLOSED\<rparr>)"
    by (rule streamKnown_kept [rotated 3]) simp_all
  then show ?thesis
    by (simp add: TwilioClosed step_def closeWithCode_streamKnown)
next
  case (ElevenLabsClosed i code reason)
  assume "streamKnown s"
  then have "streamKnown (s\<lparr>providers := (providers s)[i := CLOSED]\<rparr>)"
    by (rule streamKnown_kept [rotated 3]) simp_all
  then show ?thesis
    using \<open>streamKnown s\<close> by (simp add: ElevenLabsClosed step_def closeWithCode_streamKnown)
next
  case (ElevenLabsOpened i)
  assume "streamKnown s"
  then have "streamKnown (elevenLabsOpened i s)"
    by (rule streamKnown_kept [rotated 3]) (simp_all add: elevenLabsOpened_def)
  then show ?thesis
    using \<open>streamKnown s\<close> by (simp add: ElevenLabsOpened step_def)
next
  case (TwilioState r)
  assume "streamKnown s"
  then have "streamKnown (s\<lparr>twilio := r\<rparr>)"
    by (rule streamKnown_kept [rotated 3]) simp_all
  then show ?thesis
    by (simp add: TwilioState step_def)
next
  case (ElevenLabsState i r)
  assume "streamKnown s"
  then have "streamKnown (s\<lparr>providers := (providers s)[i := r]\<rparr>)"
    by (rule streamKnown_kept [rotated 3]) simp_all
  then show ?thesis
    using \<open>streamKnown s\<close> by (simp add: ElevenLabsState step_def)
qed (simp_all add: step_def twilioMessage_streamKnown closeWithCode_streamKnown
       signedUrlSettled_streamKnown elevenLabsMessage_streamKnown timeoutExpired_streamKnown)

lemma run_streamKnown: "streamKnown s \<Longrightarrow> streamKnown (run fo s es)"
  unfolding run_def by (induction es arbitrary: s) (simp_all add: step_streamKnown)


lemma media_lenient_streamKnown: "streamKnown s \<Longrightarrow> streamKnown (media_lenient fo data s)"
  by (erule streamKnown_kept [rotated 3])
     (simp_all add: media_lenient_def split: option.splits prod.splits)

lemma elevenLabsClose_lenient_streamKnown: "streamKnown s \<Longrightarrow> streamKnown (elevenLabsClose_lenient s)"
  by (erule streamKnown_kept [rotated 3])
     (simp_all add: elevenLabsClose_lenient_def split: option.splits)

lemma twilioMessage_lenient_streamKnown:
  "streamKnown s \<Longrightarrow> streamKnown (twilioMessage_lenient fo parsed s)"
  by (simp add: twilioMessage_lenient_def start_lenient_def media_lenient_streamKnown
        elevenLabsClose_lenient_streamKnown streamKnown_set
      split: option.splits)

lemma signedUrlSettled_lenient_streamKnown:
  "streamKnown s \<Longrightarrow> streamKnown (signedUrlSettled_lenient r a s)"
  by (auto simp: signedUrlSettled_lenient_def twilioClose_lenient_def streamKnown_def
      split: sum.splits)

lemma step_lenient_streamKnown: "streamKnown s \<Longrightarrow> streamKnown (step_lenient fo s e)"
proof (cases e)
  case (TwilioClosed code reason)
  assume "streamKnown s"
  then have "streamKnown (s\<lparr>twilio := CLOSED\<rparr>)"
    by (rule streamKnown_kept [rotated 3]) simp_all
  then show ?thesis
    by (simp add: TwilioClosed step_lenient_def elevenLabsClose_lenient_streamKnown)
next
  case (ElevenLabsMessage i parsed)
  assume "streamKnown s"
  then have "streamKnown (elevenLabsMessage_lenient parsed s)"
    by (rule streamKnown_kept [rotated 3])
       (simp_all add: elevenLabsMessage_lenient_def split: option.splits)
  then show ?thesis
    using \<open>streamKnown s\<close> by (simp add: ElevenLabsMessage step_lenient_def)
next
  case (ElevenLabsClosed i code reason)
  assume "streamKnown s"
  then have "streamKnown (s\<lparr>providers := (providers s)[i := CLOSED]\<rparr>)"
    by (rule streamKnown_kept [rotated 3]) simp_all
  then show ?thesis
    using \<open>streamKnown s\<close> by (simp add: ElevenLabsClosed step_lenient_def)
next
  case (ElevenLabsOpened i)
  assume "streamKnown s"
  then have "streamKnown (s\<lparr>providers := (providers s)[i := OPEN]\<rparr>)"
    by (rule streamKnown_kept [rotated 3]) simp_all
  then show ?thesis
    using \<open>streamKnown s\<close> by (simp add: ElevenLabsOpened step_lenient_def)
next
  case (TwilioState r)
  assume "streamKnown s"
  then have "streamKnown (s\<lparr>twilio := r\<rparr>)"
    by (rule streamKnown_kept [rotated 3]) simp_all
  then show ?thesis
    by (simp add: TwilioState step_lenient_def)
next
  case (ElevenLabsState i r)
  assume "streamKnown s"
  then have "streamKnown (s\<lparr>providers := (providers s)[i := r]\<rparr>)"
    by (rule streamKnown_kept [rotated 3]) simp_all
  then show ?thesis
    using \<open>streamKnown s\<close> by (simp add: ElevenLabsState step_lenient_def)
qed (simp_all add: step_lenient_def twilioMessage_lenient_streamKnown
       elevenLabsClose_lenient_streamKnown signedUrlSettled_lenient_streamKnown)

lemma run_lenient_streamKnown: "streamKnown s \<Longrightarrow> streamKnown (run_lenient fo s es)"
  unfolding run_lenient_def by (induction es arbitrary: s) (simp_all add: step_lenient_streamKnown)

lemma streamKnown_open: "streamKnown s \<Longrightarrow> elevenLabsOpen s \<Longrightarrow> truthy (streamSid s)"
  by (auto simp: streamKnown_def elevenLabsOpen_def)

lemma closeWithCode_no_send: "\<not> list_ex isElevenLabsSend (issued s (closeWithCode code reason s))"
  by (simp add: issued_closeWithCode split: option.splits)

lemma issued_pending_stream: "issued s (s\<lparr>streamSid := v, pending := n\<rparr>) = []"
  by (simp add: issued_def)

lemma media_closed: "\<not> elevenLabsOpen s \<Longrightarrow> media fo data s = s"
  by (simp add: media_def)

lemma media_lenient_closed: "\<not> elevenLabsOpen s \<Longrightarrow> media_lenient fo data s = s"
  by (simp add: media_lenient_def)

lemma twilioMessage_send_open:
  "list_ex isElevenLabsSend (issued s (twilioMessage fo parsed s)) \<Longrightarrow> elevenLabsOpen s"
  by (cases "elevenLabsOpen s")
     (auto simp: twilioMessage_def start_def media_closed closeWithCode_no_send issued_self
        issued_pending_stream
      split: option.splits if_splits)

lemma issued_close_lenient: "\<not> list_ex isElevenLabsSend (issued s (elevenLabsClose_lenient s))"
  by (simp add: elevenLabsClose_lenient_def issued_def split: option.splits)

lemma twilioMessage_lenient_send_open:
  "list_ex isElevenLabsSend (issued s (twilioMessage_lenient fo parsed s)) \<Longrightarrow> elevenLabsOpen s"
  by (cases "elevenLabsOpen s")
     (auto simp: twilioMessage_lenient_def start_lenient_def media_lenient_closed
        issued_close_lenient issued_self issued_pending_stream
      split: option.splits if_splits)


text \<open>
  Claim C2. In both files, a \<^verbatim>\<open>media\<close> message of Twilio that arrives while \<^verbatim>\<open>elevenLabsWs\<close> is
  \<^verbatim>\<open>null\<close> or its socket is not open leaves the session as it is: nothing is sent to the
  provider. And in every state that a session reaches from its initial state, under any
  events, a message of Twilio that makes the handler send something to the provider finds
  \<^verbatim>\<open>streamSid\<close> set (by a \<^verbatim>\<open>start\<close> message, the only place that sets it) and the provider socket
  open.
\<close>

theorem media_needs_start_and_open_provider:
  "(prop_of data ''event'' = JStr ''media'' \<and> \<not> elevenLabsOpen s \<longrightarrow>
      step fromObject s (TwilioMessage (Some data)) = s) \<and>
   (prop_of data ''event'' = JStr ''media'' \<and> \<not> elevenLabsOpen r \<longrightarrow>
      step_lenient fromObject r (TwilioMessage (Some data)) = r) \<and>
   (list_ex isElevenLabsSend
      (issued (run fromObject initial es)
         (step fromObject (run fromObject initial es) (TwilioMessage parsed))) \<longrightarrow>
      truthy (streamSid (run fromObject initial es)) \<and> elevenLabsOpen (run fromObject initial es)) \<and>
   (list_ex isElevenLabsSend
      (issued (run_lenient fromObject initial_lenient es)
         (step_lenient fromObject (run_lenient fromObject initial_lenient es) (TwilioMessage parsed))) \<longrightarrow>
      truthy (streamSid (run_lenient fromObject initial_lenient es)) \<and>
      elevenLabsOpen (run_lenient fromObject initial_lenient es))"
proof (intro conjI impI)
  assume a: "prop_of data ''event'' = JStr ''media'' \<and> \<not> elevenLabsOpen s"
  then have "truthy data"
    using prop_of_string_object [of data "''event''" "''media''"] by simp
  with a show "step fromObject s (TwilioMessage (Some data)) = s"
    by (simp add: step_def twilioMessage_def media_closed)
next
  assume a: "prop_of data ''event'' = JStr ''media'' \<and> \<not> elevenLabsOpen r"
  then have "truthy data"
    using prop_of_string_object [of data "''event''" "''media''"] by simp
  with a show "step_lenient fromObject r (TwilioMessage (Some data)) = r"
    by (simp add: step_lenient_def twilioMessage_lenient_def media_lenient_closed)
next
  assume sends: "list_ex isElevenLabsSend
      (issued (run fromObject initial es)
         (step fromObject (run fromObject initial es) (TwilioMessage parsed)))"
  have known: "streamKnown (run fromObject initial es)"
    by (rule run_streamKnown) (simp add: streamKnown_def initial_def)
  from sends show opened: "elevenLabsOpen (run fromObject initial es)"
    by (simp add: step_def twilioMessage_send_open)
  from known opened show "truthy (streamSid (run fromObject initial es))"
    by (rule streamKnown_open)
next
  assume sends: "list_ex isElevenLabsSend
      (issued (run_lenient fromObject initial_lenient es)
         (step_lenient fromObject (run_lenient fromObject initial_lenient es) (TwilioMessage parsed)))"
  have known: "streamKnown (run_lenient fromObject initial_lenient es)"
    by (rule run_lenient_streamKnown) (simp add: streamKnown_def initial_lenient_def)
  from sends show opened: "elevenLabsOpen (run_lenient fromObject initial_lenient es)"
    by (simp add: step_lenient_def twilioMessage_lenient_send_open)
  from known opened show "truthy (streamSid (run_lenient fromObject initial_lenient es))"
    by (rule streamKnown_open)
qed

lemma reencode_QUJD: "base64_encode (base64_decode ''QUJD'') = ''QUJD''"
  by code_simp

lemma reencode_empty: "base64_encode (base64_decode []) = []"
  by (simp add: base64_decode_def)

lemma active_media:
  "step noObjects active (TwilioMessage (Some (mediaMessage ''QUJD''))) =
     active\<lparr>calls := calls active @ [ElevenLabsSend 0 (JObj [(''user_audio_chunk'', JStr ''QUJD'')])]\<rparr>"
  by (simp add: step_def twilioMessage_def media_def mediaMessage_def active_def elevenLabsOpen_def
      bufferRoundTrip_def audioMessage_def reencode_QUJD)

lemma active_lenient_media:
  "step_lenient noObjects active_lenient (TwilioMessage (Some (mediaMessage ''QUJD''))) =
     active_lenient\<lparr>calls := calls active_lenient @ [ElevenLabsSend 0 (JObj [(''user_audio_chunk'', JStr ''QUJD'')])]\<rparr>"
  by (simp add: step_lenient_def twilioMessage_lenient_def media_lenient_def mediaMessage_def
      active_lenient_def elevenLabsOpen_def bufferRoundTrip_def audioMessage_def reencode_QUJD)

lemma established_active_lenient: "run_lenient noObjects initial_lenient established = active_lenient"
  by (simp add: established_def run_lenient_def initial_lenient_def active_lenient_def step_lenient_def
      twilioMessage_lenient_def start_lenient_def signedUrlSettled_lenient_def getSignedUrl_def
      startMessage_def urlResponse_def signedUrl_def)

theorem media_needs_start_and_open_provider_witness:
  "step noObjects started (TwilioMessage (Some (mediaMessage ''QUJD''))) = started \<and>
   step_lenient noObjects initial_lenient (TwilioMessage (Some (mediaMessage ''QUJD''))) = initial_lenient \<and>
   issued active (step noObjects active (TwilioMessage (Some (mediaMessage ''QUJD'')))) =
     [ElevenLabsSend 0 (JObj [(''user_audio_chunk'', JStr ''QUJD'')])] \<and>
   truthy (streamSid active) \<and> elevenLabsOpen active \<and>
   issued active_lenient (step_lenient noObjects active_lenient (TwilioMessage (Some (mediaMessage ''QUJD'')))) =
     [ElevenLabsSend 0 (JObj [(''user_audio_chunk'', JStr ''QUJD'')])] \<and>
   truthy (streamSid active_lenient) \<and> elevenLabsOpen active_lenient"
proof -
  note claim = media_needs_start_and_open_provider
    [where fromObject = noObjects and data = "mediaMessage ''QUJD''" and s = started
       and r = initial_lenient and es = established and parsed = "Some (mediaMessage ''QUJD'')"]
  have p1: "prop_of (mediaMessage ''QUJD'') ''event'' = JStr ''media'' \<and> \<not> elevenLabsOpen started"
    by (simp add: mediaMessage_def started_def elevenLabsOpen_def)
  have c1: "step noObjects started (TwilioMessage (Some (mediaMessage ''QUJD''))) = started"
    using claim p1 by blast
  have p2: "prop_of (mediaMessage ''QUJD'') ''event'' = JStr ''media'' \<and> \<not> elevenLabsOpen initial_lenient"
    by (simp add: mediaMessage_def initial_lenient_def elevenLabsOpen_def)
  have c2: "step_lenient noObjects initial_lenient (TwilioMessage (Some (mediaMessage ''QUJD''))) =
      initial_lenient"
    using claim p2 by blast
  have sent: "issued active (step noObjects active (TwilioMessage (Some (mediaMessage ''QUJD'')))) =
      [ElevenLabsSend 0 (JObj [(''user_audio_chunk'', JStr ''QUJD'')])]"
    by (simp only: active_media issued_append)
  have sent_lenient:
    "issued active_lenient (step_lenient noObjects active_lenient (TwilioMessage (Some (mediaMessage ''QUJD'')))) =
      [ElevenLabsSend 0 (JObj [(''user_audio_chunk'', JStr ''QUJD'')])]"
    by (simp only: active_lenient_media issued_append)
  have p3: "list_ex isElevenLabsSend
      (issued (run noObjects initial established)
         (step noObjects (run noObjects initial established) (TwilioMessage (Some (mediaMessage ''QUJD'')))))"
    by (simp add: established_active sent)
  have p4: "list_ex isElevenLabsSend
      (issued (run_lenient noObjects initial_lenient established)
         (step_lenient noObjects (run_lenient noObjects initial_lenient established)
            (TwilioMessage (Some (mediaMessage ''QUJD'')))))"
    by (simp add: established_active_lenient sent_lenient)
  have c3: "truthy (streamSid (run noObjects initial established)) \<and>
      elevenLabsOpen (run noObjects initial established)"
    using claim p3 by blast
  have c4: "truthy (streamSid (run_lenient noObjects initial_lenient established)) \<and>
      elevenLabsOpen (run_lenient noObjects initial_lenient established)"
    using claim p4 by blast
  show ?thesis
    using c1 c2 sent sent_lenient c3 c4 by (simp add: established_active established_active_lenient)
qed

section \<open>The base64 round trip\<close>

text \<open>Decoding what the encoder wrote gives the bytes back.\<close>

lemma pad_code: "(of_char CHR ''='' :: nat) = 61"
  by simp

lemma base64_char_code:
  "v < 64 \<Longrightarrow> (of_char (base64_char v) :: nat) =
     (if v < 26 then 65 + v else if v < 52 then 71 + v else if v < 62 then v - 4
      else if v = 62 then 43 else 47)"
  by (simp add: base64_char_def)

lemma unbase64_code:
  "unbase64 c =
     (let n = (of_char c :: nat) in
        if 65 \<le> n \<and> n \<le> 90 then Some (n - 65)
        else if 97 \<le> n \<and> n \<le> 122 then Some (n - 71)
        else if 48 \<le> n \<and> n \<le> 57 then Some (n + 4)
        else if n = 43 \<or> n = 45 then Some 62
        else if n = 47 \<or> n = 95 then Some 63
        else None)"
proof -
  have "c = CHR ''+'' \<longleftrightarrow> (of_char c :: nat) = of_char CHR ''+''"
       "c = CHR ''-'' \<longleftrightarrow> (of_char c :: nat) = of_char CHR ''-''"
       "c = CHR ''/'' \<longleftrightarrow> (of_char c :: nat) = of_char CHR ''/''"
       "c = CHR ''_'' \<longleftrightarrow> (of_char c :: nat) = of_char CHR ''_''"
    by (simp_all only: of_char_eq_iff)
  then show ?thesis
    by (simp add: unbase64_def Let_def)
qed

lemma unbase64_base64_char: "v < 64 \<Longrightarrow> unbase64 (base64_char v) = Some v"
  by (auto simp: unbase64_code base64_char_code Let_def)

lemma base64_char_not_pad: "v < 64 \<Longrightarrow> base64_char v \<noteq> CHR ''=''"
proof
  assume "v < 64" and "base64_char v = CHR ''=''"
  then have "(of_char (base64_char v) :: nat) = 61"
    by simp
  with \<open>v < 64\<close> show False
    by (simp add: base64_char_code split: if_splits)
qed


lemma split_low: "b < n \<Longrightarrow> (a * n + b) div n = (a::nat) \<and> (a * n + b) mod n = b"
  by simp

lemma sextet_bound_2: "y < 256 \<Longrightarrow> (x mod 4) * 16 + y div 16 < (64::nat)"
proof -
  assume "y < 256"
  then have "y div 16 < 16" by simp
  moreover have "x mod 4 < 4" by simp
  ultimately show ?thesis by linarith
qed

lemma sextet_bound_3: "z < 256 \<Longrightarrow> (y mod 16) * 4 + z div 64 < (64::nat)"
proof -
  assume "z < 256"
  then have "z div 64 < 4" by simp
  moreover have "y mod 16 < 16" by simp
  ultimately show ?thesis by linarith
qed

lemma sextet_bound_3': "(y mod 16) * 4 < (64::nat)"
proof -
  have "y mod 16 < 16" by simp
  then show ?thesis by linarith
qed

lemma sextet_bound_2': "(x mod 4) * 16 < (64::nat)"
proof -
  have "x mod 4 < 4" by simp
  then show ?thesis by linarith
qed

lemma regroup_1: "y < 256 \<Longrightarrow> (x div 4) * 4 + ((x mod 4) * 16 + y div 16) div 16 = (x::nat)"
proof -
  assume "y < 256"
  then have y: "y div 16 < 16" by simp
  show ?thesis
    using split_low [OF y, of "x mod 4"] by simp
qed

lemma regroup_2:
  "y < 256 \<Longrightarrow> z < 256 \<Longrightarrow>
   (((x mod 4) * 16 + y div 16) mod 16) * 16 + ((y mod 16) * 4 + z div 64) div 4 = (y::nat)"
proof -
  assume "y < 256" and "z < 256"
  then have y: "y div 16 < 16" and z: "z div 64 < 4" by simp_all
  show ?thesis
    using split_low [OF y, of "x mod 4"] split_low [OF z, of "y mod 16"] by simp
qed

lemma regroup_3: "z < 256 \<Longrightarrow> (((y mod 16) * 4 + z div 64) mod 4) * 64 + z mod 64 = (z::nat)"
proof -
  assume "z < 256"
  then have z: "z div 64 < 4" by simp
  show ?thesis
    using split_low [OF z, of "y mod 16"] by simp
qed

lemma regroup_2': "y < 256 \<Longrightarrow> (((x mod 4) * 16 + y div 16) mod 16) * 16 + ((y mod 16) * 4) div 4 = (y::nat)"
proof -
  assume "y < 256"
  then have y: "y div 16 < 16" by simp
  show ?thesis
    using split_low [OF y, of "x mod 4"] by simp
qed

lemma regroup_1': "(x div 4) * 4 + ((x mod 4) * 16) div 16 = (x::nat)"
  by simp

lemmas sextet_bounds = sextet_bound_2 sextet_bound_3 sextet_bound_2' sextet_bound_3'

lemmas regroup = regroup_1 regroup_2 regroup_3 regroup_1' regroup_2'

lemma sextets_char: "v < 64 \<Longrightarrow> sextets (base64_char v # cs) = v # sextets cs"
  by (simp add: unbase64_base64_char base64_char_not_pad)

lemma sextets_pad: "sextets (CHR ''='' # cs) = []"
  by simp

lemma decode_encode:
  "list_all (\<lambda>b. b < 256) bs \<Longrightarrow> base64_decode (base64_encode bs) = bs"
  unfolding base64_decode_def
proof (induction bs rule: base64_encode.induct)
  case (1 x y z r)
  then have "decode_groups (sextets (base64_encode r)) = r" and "x < 256" and "y < 256" and "z < 256"
    by simp_all
  then show ?case
    by (simp add: sextets_char sextet_bounds regroup del: sextets.simps)
next
  case (2 x y)
  then have "x < 256" and "y < 256"
    by simp_all
  then show ?case
    by (simp add: sextets_char sextets_pad sextet_bounds regroup del: sextets.simps)
next
  case (3 x)
  then have "x < 256"
    by simp
  then show ?case
    by (simp add: sextets_char sextets_pad sextet_bounds regroup del: sextets.simps)
next
  case 4
  show ?case by simp
qed


text \<open>
  So the \<^verbatim>\<open>media\<close> case of \<^verbatim>\<open>src/inbound-calls.js\<close> sends a string payload on as the encoding of
  what the lenient decoder reads from it, and a payload that is the encoding of some bytes
  is sent on as it came. A payload that is not is sent on changed, not refused.
\<close>

lemma media_string_payload:
  assumes "elevenLabsOpen s" and "elevenLabsWs s = Some i" and "p \<noteq> []"
  shows "media fo (mediaMessage p) s =
           s\<lparr>calls := calls s @ [ElevenLabsSend i (audioMessage (base64_encode (base64_decode p)))]\<rparr>"
  using assms by (simp add: media_def mediaMessage_def bufferRoundTrip_def)

lemma media_forwards_canonical:
  assumes "elevenLabsOpen s" and "elevenLabsWs s = Some i" and "list_all (\<lambda>b. b < 256) bs" and "bs \<noteq> []"
  shows "media fo (mediaMessage (base64_encode bs)) s =
           s\<lparr>calls := calls s @ [ElevenLabsSend i (audioMessage (base64_encode bs))]\<rparr>"
proof -
  have "base64_encode bs \<noteq> []"
    using assms(4) by (cases bs rule: base64_encode.cases) simp_all
  then show ?thesis
    using assms(1,2,3) by (simp add: media_string_payload decode_encode)
qed

lemma reencode_examples:
  "base64_encode (base64_decode ''QUI'') = ''QUI=''"
  "base64_encode (base64_decode ''QUJD!'') = ''QUJD''"
  "base64_encode (base64_decode ''!!!!'') = []"
  by code_simp+

section \<open>The payload test of the \<^verbatim>\<open>media\<close> case\<close>

text \<open>
  Claim C4 holds of \<^verbatim>\<open>src/inbound-calls.js\<close> and fails on the second file, whose \<^verbatim>\<open>media\<close> case
  has no test of the payload: with both legs open, the message
  \<^verbatim>\<open>{"event":"media","media":{"payload":""}}\<close> is sent on to the provider as
  \<^verbatim>\<open>{"user_audio_chunk":""}\<close>, where the first file drops it.
\<close>

theorem lenient_forwards_empty_payload:
  "step_lenient noObjects active_lenient (TwilioMessage (Some (mediaMessage ''''))) =
     active_lenient\<lparr>calls := calls active_lenient @ [ElevenLabsSend 0 (JObj [(''user_audio_chunk'', JStr '''')])]\<rparr> \<and>
   step noObjects active (TwilioMessage (Some (mediaMessage ''''))) = active"
  by (simp add: step_lenient_def twilioMessage_lenient_def media_lenient_def step_def twilioMessage_def
      media_def mediaMessage_def active_def active_lenient_def elevenLabsOpen_def bufferRoundTrip_def
      reencode_empty audioMessage_def)

end
